theory Spec2Isabelle
  imports Main "HOL-Library.AList"
begin

section \<open>Python values used by the skills-analysis scripts\<close>

text \<open>
  A Python \<open>str\<close> is a sequence of Unicode code points, so a string is modelled as the
  list of its code points. Literals are written \<open>str ''...''\<close>.
\<close>

type_synonym pystr = "nat list"

abbreviation (input) str :: "string \<Rightarrow> pystr" where
  "str s \<equiv> map of_char s"

text \<open>
  The exceptions the modelled code can raise. \<open>KeyError\<close> carries the missing key.
\<close>

datatype py_error =
    KeyError pystr
  | TypeError
  | IndexError
  | ZeroDivisionError
  | UnboundLocalError

text \<open>
  \<open>str.strip()\<close> without argument removes leading and trailing white space, which for
  Python 3 is the set of code points below.
\<close>

definition isspace :: "nat \<Rightarrow> bool" where
  "isspace c =
     (c \<in> set [9, 10, 11, 12, 13, 28, 29, 30, 31, 32, 133, 160, 5760,
                8232, 8233, 8239, 8287, 12288]
      \<or> (8192 \<le> c \<and> c \<le> 8202))"

definition strip :: "pystr \<Rightarrow> pystr" where
  "strip s = rev (dropWhile isspace (rev (dropWhile isspace s)))"

text \<open>\<open>s.split(sep)\<close> for a separator of one character: never an empty list.\<close>

fun py_split :: "nat \<Rightarrow> pystr \<Rightarrow> pystr list" where
  "py_split sep [] = [[]]"
| "py_split sep (c # cs) =
     (if c = sep then [] # py_split sep cs
      else (case py_split sep cs of
              [] \<Rightarrow> [[c]]
            | w # ws \<Rightarrow> (c # w) # ws))"

text \<open>\<open>row[i]\<close> on a list: \<open>None\<close> as index is a TypeError, an index past the end an
  IndexError. Indices come from \<open>enumerate\<close>, so they are never negative.\<close>

definition getitem :: "'a list \<Rightarrow> nat option \<Rightarrow> py_error + 'a" where
  "getitem xs idx =
     (case idx of
        None \<Rightarrow> Inl TypeError
      | Some i \<Rightarrow> if i < length xs then Inr (xs ! i) else Inl IndexError)"

section \<open>devops_skills_analysis.py\<close>

subsection \<open>Subcategory cleaning and list parsing\<close>

definition clean_subcategory :: "pystr \<Rightarrow> pystr" where
  "clean_subcategory subcategory =
     (let start = of_char CHR ''('';
          subcategory1 = (if start \<in> set subcategory
                          then hd (py_split start subcategory)
                          else subcategory)
      in strip subcategory1)"

fun subcategory_loop :: "pystr list \<Rightarrow> pystr list \<Rightarrow> pystr list" where
  "subcategory_loop [] ret_li = ret_li"
| "subcategory_loop (ele # in_list) ret_li =
     (if ele = [] then subcategory_loop in_list ret_li
      else subcategory_loop in_list (ret_li @ [clean_subcategory ele]))"

definition str_to_subcategory_list :: "pystr \<Rightarrow> pystr list" where
  "str_to_subcategory_list in_str =
     (if in_str \<noteq> []
      then subcategory_loop (py_split (of_char CHR '';'') in_str) []
      else [])"

subsection \<open>The header patterns\<close>

text \<open>
  The four header patterns are searched with \<open>re.search\<close>. Each starts with \<open>^\<close> and ends
  with \<open>$\<close>, a dot matches any character but a newline (code point 10), and \<open>$\<close> matches
  at the end of the string or just before a newline that ends it. So the pattern has to
  cover the string without its final newline, if it has one, and what it covers holds no
  newline.
\<close>

definition re_subject :: "pystr \<Rightarrow> pystr option" where
  "re_subject s =
     (let body = (if s \<noteq> [] \<and> last s = 10 then butlast s else s)
      in if 10 \<in> set body then None else Some body)"

text \<open>
  \<open>^P.(.*).S$\<close> for literal texts \<open>P\<close> and \<open>S\<close>: the group is what stands between the
  character after \<open>P\<close> and the character before \<open>S\<close>.
\<close>

definition match_one_group :: "pystr \<Rightarrow> pystr \<Rightarrow> pystr \<Rightarrow> pystr option" where
  "match_one_group P S s =
     (case re_subject s of
        None \<Rightarrow> None
      | Some body \<Rightarrow>
          if length P + 2 + length S \<le> length body
             \<and> take (length P) body = P
             \<and> drop (length body - length S) body = S
          then Some (take (length body - length S - length P - 2) (drop (length P + 1) body))
          else None)"

text \<open>
  The first group of the two-group patterns is greedy: it ends where the literal text
  after it occurs for the last time. \<open>split_last sep s\<close> cuts \<open>s\<close> at the last
  occurrence of \<open>sep\<close>.
\<close>

fun split_last :: "pystr \<Rightarrow> pystr \<Rightarrow> (pystr \<times> pystr) option" where
  "split_last sep [] = (if sep = [] then Some ([], []) else None)"
| "split_last sep (c # cs) =
     (case split_last sep cs of
        Some (a, b) \<Rightarrow> Some (c # a, b)
      | None \<Rightarrow>
          if take (length sep) (c # cs) = sep
          then Some ([], drop (length sep) (c # cs))
          else None)"

definition use_match :: "pystr \<Rightarrow> pystr option" where
  "use_match col =
     match_one_group (str ''Which'')
       (str ''skills would you like to use in your day-to-day work, or feel are underused?'')
       col"

definition learn_match :: "pystr \<Rightarrow> pystr option" where
  "learn_match col =
     match_one_group (str ''Are there'')
       (str ''skills you are interested in learning or continuing to develop?'')
       col"

text \<open>\<open>^P.(.*)\?\.(.*)$\<close>: category and subcategory of a self-level header.\<close>

definition self_match :: "pystr \<Rightarrow> (pystr \<times> pystr) option" where
  "self_match col =
     (let P = str ''How would you describe your current experience or comfort level with''
      in case re_subject col of
           None \<Rightarrow> None
         | Some body \<Rightarrow>
             if length P + 1 \<le> length body \<and> take (length P) body = P
             then split_last (str ''?.'') (drop (length P + 1) body)
             else None)"

text \<open>\<open>^P.(.*).L\?\.(.*)$\<close>: one more character stands between the first group and the
  literal text.\<close>

definition team_match :: "pystr \<Rightarrow> (pystr \<times> pystr) option" where
  "team_match col =
     (let P = str ''Based on what you know today, what level of'';
          L = str ''skills do you think your team will need over the next 12 months?.''
      in case re_subject col of
           None \<Rightarrow> None
         | Some body \<Rightarrow>
             if length P + 1 \<le> length body \<and> take (length P) body = P
             then (case split_last L (drop (length P + 1) body) of
                     None \<Rightarrow> None
                   | Some (a, b) \<Rightarrow> if a = [] then None else Some (butlast a, b))
             else None)"

subsection \<open>The column tables\<close>

text \<open>
  A \<open>dict\<close> is an association list in insertion order. Assigning to a key replaces the
  value where the key stands or appends the new key (\<open>AList.update\<close>); a \<open>dict\<close> holds
  each key once, so the value read back by key is the one that iterating it gives.
\<close>

record cur_cols =
  SELF :: "nat option"
  TEAM :: "nat option"

record fut_cols =
  USE :: "nat option"
  LEARN :: "nat option"

record fut_counts =
  USE_count :: int
  LEARN_count :: int

text \<open>The module's global tables, threaded through the functions that write them.\<close>

record tables =
  CUR_COL_MAPPING :: "(pystr \<times> (pystr \<times> cur_cols) list) list"
  FUT_COL_MAPPING :: "(pystr \<times> fut_cols) list"
  COMMON_COL_MAPPING :: "(pystr \<times> nat) list"
  FUT_COLS :: "(pystr \<times> (pystr \<times> fut_counts) list) list"

text \<open>The tables as the module creates them on import.\<close>

definition init_tables :: tables where
  "init_tables =
     \<lparr>CUR_COL_MAPPING = [], FUT_COL_MAPPING = [], COMMON_COL_MAPPING = [], FUT_COLS = []\<rparr>"

definition OTHER_COL :: "pystr list" where
  "OTHER_COL = [str ''Name'', str ''Classification Level'', str ''What team are you on?'']"

text \<open>The team mapping of the mapping file: category to the list of its subcategories.\<close>

type_synonym mapping = "(pystr \<times> pystr list) list"

subsection \<open>Header matchers\<close>

text \<open>\<open>index\<close> is tested for truth in the source, and \<open>0\<close> is false.\<close>

definition set_common_headers :: "pystr \<Rightarrow> nat \<Rightarrow> tables \<Rightarrow> tables" where
  "set_common_headers key index st =
     (if key \<notin> set (map fst (COMMON_COL_MAPPING st)) \<and> index \<noteq> 0
      then st\<lparr>COMMON_COL_MAPPING := AList.update key index (COMMON_COL_MAPPING st)\<rparr>
      else st)"

text \<open>The first loop of \<open>set_fut_headers\<close>: every category of the mapping gets an entry
  with both columns unset, and a table of its subcategories with both counts at 0.\<close>

fun fut_subcategory_init :: "pystr list \<Rightarrow> (pystr \<times> fut_counts) list
    \<Rightarrow> (pystr \<times> fut_counts) list" where
  "fut_subcategory_init [] d = d"
| "fut_subcategory_init (subcategory # rest) d =
     fut_subcategory_init rest
       (AList.update subcategory \<lparr>USE_count = 0, LEARN_count = 0\<rparr> d)"

fun fut_init :: "mapping \<Rightarrow> tables \<Rightarrow> tables" where
  "fut_init [] st = st"
| "fut_init ((category, subcategories) # rest) st =
     fut_init rest
       (st\<lparr>FUT_COL_MAPPING :=
              AList.update category \<lparr>USE = None, LEARN = None\<rparr> (FUT_COL_MAPPING st),
           FUT_COLS :=
              AList.update category (fut_subcategory_init subcategories []) (FUT_COLS st)\<rparr>)"

text \<open>\<open>FUT_COL_MAPPING[match_category]["USE"] = index\<close>: a category that is no key of the
  table is a KeyError.\<close>

definition set_fut_use :: "pystr \<Rightarrow> nat \<Rightarrow> tables \<Rightarrow> py_error + tables" where
  "set_fut_use match_category index st =
     (case map_of (FUT_COL_MAPPING st) match_category of
        None \<Rightarrow> Inl (KeyError match_category)
      | Some cols \<Rightarrow>
          Inr (st\<lparr>FUT_COL_MAPPING :=
                 AList.update match_category (cols\<lparr>USE := Some index\<rparr>) (FUT_COL_MAPPING st)\<rparr>))"

definition set_fut_learn :: "pystr \<Rightarrow> nat \<Rightarrow> tables \<Rightarrow> py_error + tables" where
  "set_fut_learn match_category index st =
     (case map_of (FUT_COL_MAPPING st) match_category of
        None \<Rightarrow> Inl (KeyError match_category)
      | Some cols \<Rightarrow>
          Inr (st\<lparr>FUT_COL_MAPPING :=
                 AList.update match_category (cols\<lparr>LEARN := Some index\<rparr>) (FUT_COL_MAPPING st)\<rparr>))"

text \<open>The second loop of \<open>set_fut_headers\<close>, over \<open>enumerate(row)\<close>.\<close>

fun fut_headers_loop :: "nat \<Rightarrow> pystr list \<Rightarrow> tables \<Rightarrow> py_error + tables" where
  "fut_headers_loop index [] st = Inr st"
| "fut_headers_loop index (col # rest) st =
     (if col \<in> set OTHER_COL
      then fut_headers_loop (Suc index) rest (set_common_headers col index st)
      else
        (case (case use_match col of
                 None \<Rightarrow> Inr st
               | Some g \<Rightarrow> set_fut_use (strip g) index st) of
           Inl e \<Rightarrow> Inl e
         | Inr st1 \<Rightarrow>
             (case (case learn_match col of
                      None \<Rightarrow> Inr st1
                    | Some g \<Rightarrow> set_fut_learn (strip g) index st1) of
                Inl e \<Rightarrow> Inl e
              | Inr st2 \<Rightarrow> fut_headers_loop (Suc index) rest st2)))"

definition set_fut_headers :: "pystr list \<Rightarrow> mapping \<Rightarrow> tables \<Rightarrow> py_error + tables" where
  "set_fut_headers row mapping st = fut_headers_loop 0 row (fut_init mapping st)"

text \<open>The first loop of \<open>set_cur_headers\<close>.\<close>

fun cur_subcategory_init :: "pystr list \<Rightarrow> (pystr \<times> cur_cols) list
    \<Rightarrow> (pystr \<times> cur_cols) list" where
  "cur_subcategory_init [] d = d"
| "cur_subcategory_init (subcategory # rest) d =
     cur_subcategory_init rest (AList.update subcategory \<lparr>SELF = None, TEAM = None\<rparr> d)"

fun cur_init :: "mapping \<Rightarrow> tables \<Rightarrow> tables" where
  "cur_init [] st = st"
| "cur_init ((category, subcategories) # rest) st =
     cur_init rest
       (st\<lparr>CUR_COL_MAPPING :=
              AList.update category (cur_subcategory_init subcategories [])
                (CUR_COL_MAPPING st)\<rparr>)"

text \<open>\<open>CUR_COL_MAPPING[match_category][match_subcategory]["SELF"] = index\<close> (or
  \<open>"TEAM"\<close>): both lookups raise KeyError on a missing key.\<close>

definition set_cur_col :: "pystr \<Rightarrow> pystr \<Rightarrow> (cur_cols \<Rightarrow> cur_cols) \<Rightarrow> tables
    \<Rightarrow> py_error + tables" where
  "set_cur_col match_category match_subcategory assign st =
     (case map_of (CUR_COL_MAPPING st) match_category of
        None \<Rightarrow> Inl (KeyError match_category)
      | Some subs \<Rightarrow>
          (case map_of subs match_subcategory of
             None \<Rightarrow> Inl (KeyError match_subcategory)
           | Some cols \<Rightarrow>
               Inr (st\<lparr>CUR_COL_MAPPING :=
                      AList.update match_category
                        (AList.update match_subcategory (assign cols) subs)
                        (CUR_COL_MAPPING st)\<rparr>)))"

text \<open>A category and a subcategory for which both lookups of the assignment above
  succeed in a given table.\<close>

definition declared :: "(pystr \<times> (pystr \<times> cur_cols) list) list \<Rightarrow> pystr \<Rightarrow> pystr \<Rightarrow> bool" where
  "declared table category subcategory =
     (case map_of table category of
        None \<Rightarrow> False
      | Some subs \<Rightarrow> subcategory \<in> fst ` set subs)"

fun cur_headers_loop :: "nat \<Rightarrow> pystr list \<Rightarrow> tables \<Rightarrow> py_error + tables" where
  "cur_headers_loop index [] st = Inr st"
| "cur_headers_loop index (col # rest) st =
     (if col \<in> set OTHER_COL
      then cur_headers_loop (Suc index) rest (set_common_headers col index st)
      else
        (case (case self_match col of
                 None \<Rightarrow> Inr st
               | Some (c, s) \<Rightarrow>
                   set_cur_col (strip c) (clean_subcategory s) (SELF_update (\<lambda>_. Some index)) st) of
           Inl e \<Rightarrow> Inl e
         | Inr st1 \<Rightarrow>
             (case (case team_match col of
                      None \<Rightarrow> Inr st1
                    | Some (c, s) \<Rightarrow>
                        set_cur_col (strip c) (clean_subcategory s)
                          (TEAM_update (\<lambda>_. Some index)) st1) of
                Inl e \<Rightarrow> Inl e
              | Inr st2 \<Rightarrow> cur_headers_loop (Suc index) rest st2)))"

definition set_cur_headers :: "pystr list \<Rightarrow> mapping \<Rightarrow> tables \<Rightarrow> py_error + tables" where
  "set_cur_headers row mapping st = cur_headers_loop 0 row (cur_init mapping st)"

subsection \<open>Future-skills reshaper\<close>

text \<open>An output row of the future-skills process; the template row holds \<open>None\<close> in the
  fields that are filled later.\<close>

record future_skill =
  fs_Name :: pystr
  fs_Classification :: pystr
  fs_Team :: pystr
  fs_Category :: "pystr option"
  fs_SubCategory :: "pystr option"
  fs_Use :: "int option"
  fs_Learn :: "int option"

text \<open>The two loops of \<open>create_new_rows\<close>, on the pair \<open>(rows, added)\<close>.\<close>

fun use_loop :: "pystr list \<Rightarrow> pystr list \<Rightarrow> future_skill
    \<Rightarrow> future_skill list \<times> pystr list \<Rightarrow> future_skill list \<times> pystr list" where
  "use_loop [] learn_li temp_row (rows, added) = (rows, added)"
| "use_loop (new_subcategory # rest) learn_li temp_row (rows, added) =
     (if new_subcategory \<in> set added then use_loop rest learn_li temp_row (rows, added)
      else
        let cur_row = temp_row\<lparr>fs_SubCategory := Some new_subcategory, fs_Use := Some 1\<rparr>;
            cur_row1 = (if new_subcategory \<in> set learn_li
                        then cur_row\<lparr>fs_Learn := Some 1\<rparr>
                        else cur_row\<lparr>fs_Learn := Some 0\<rparr>)
        in use_loop rest learn_li temp_row (rows @ [cur_row1], added @ [new_subcategory]))"

fun learn_loop :: "pystr list \<Rightarrow> pystr list \<Rightarrow> future_skill
    \<Rightarrow> future_skill list \<times> pystr list \<Rightarrow> future_skill list \<times> pystr list" where
  "learn_loop [] use_li temp_row (rows, added) = (rows, added)"
| "learn_loop (sub_category # rest) use_li temp_row (rows, added) =
     (if sub_category \<in> set added then learn_loop rest use_li temp_row (rows, added)
      else
        let cur_row = temp_row\<lparr>fs_SubCategory := Some sub_category, fs_Learn := Some 1\<rparr>;
            cur_row1 = (if sub_category \<in> set use_li
                        then cur_row\<lparr>fs_Use := Some 1\<rparr>
                        else cur_row\<lparr>fs_Use := Some 0\<rparr>)
        in learn_loop rest use_li temp_row (rows @ [cur_row1], added @ [sub_category]))"

definition create_new_rows :: "pystr list \<Rightarrow> pystr list \<Rightarrow> future_skill
    \<Rightarrow> future_skill list" where
  "create_new_rows use_li learn_li temp_row =
     fst (learn_loop learn_li use_li temp_row (use_loop use_li learn_li temp_row ([], [])))"

text \<open>\<open>row[COMMON_COL_MAPPING[key]]\<close>.\<close>

definition common_cell :: "tables \<Rightarrow> pystr list \<Rightarrow> pystr \<Rightarrow> py_error + pystr" where
  "common_cell st row key =
     (case map_of (COMMON_COL_MAPPING st) key of
        None \<Rightarrow> Inl (KeyError key)
      | Some i \<Rightarrow> getitem row (Some i))"

text \<open>The loop of \<open>row_to_future_skills\<close> over \<open>FUT_COLS.items()\<close>.\<close>

fun future_loop :: "tables \<Rightarrow> pystr list \<Rightarrow> future_skill
    \<Rightarrow> (pystr \<times> (pystr \<times> fut_counts) list) list \<Rightarrow> future_skill list
    \<Rightarrow> py_error + future_skill list" where
  "future_loop st row skill_dict [] future_skills = Inr future_skills"
| "future_loop st row skill_dict (ele # rest) future_skills =
     (let category = fst ele in
      case map_of (FUT_COL_MAPPING st) category of
        None \<Rightarrow> Inl (KeyError category)
      | Some cols \<Rightarrow>
          (case getitem row (USE cols) of
             Inl e \<Rightarrow> Inl e
           | Inr use_cell \<Rightarrow>
               (case getitem row (LEARN cols) of
                  Inl e \<Rightarrow> Inl e
                | Inr learn_cell \<Rightarrow>
                    let use_list = str_to_subcategory_list use_cell;
                        learn_list = str_to_subcategory_list learn_cell;
                        cur_row = skill_dict\<lparr>fs_Category := Some category\<rparr>;
                        sub_category_rows = create_new_rows use_list learn_list cur_row
                    in future_loop st row skill_dict rest (future_skills @ sub_category_rows))))"

definition row_to_future_skills :: "tables \<Rightarrow> pystr list \<Rightarrow> py_error + future_skill list" where
  "row_to_future_skills st row =
     (case common_cell st row (str ''Name'') of
        Inl e \<Rightarrow> Inl e
      | Inr name \<Rightarrow>
          (case common_cell st row (str ''Classification Level'') of
             Inl e \<Rightarrow> Inl e
           | Inr classification \<Rightarrow>
               (case common_cell st row (str ''What team are you on?'') of
                  Inl e \<Rightarrow> Inl e
                | Inr team \<Rightarrow>
                    future_loop st row
                      \<lparr>fs_Name = name, fs_Classification = classification, fs_Team = team,
                       fs_Category = None, fs_SubCategory = None,
                       fs_Use = None, fs_Learn = None\<rparr>
                      (FUT_COLS st) [])))"

subsection \<open>Current-skills reshaper\<close>

text \<open>A value of \<open>SKILL_LEVEL_MAP\<close> is a number or the text \<open>"N/A"\<close>.\<close>

datatype level_value = Level int | Text pystr

definition SKILL_LEVEL_MAP :: "(pystr \<times> level_value) list" where
  "SKILL_LEVEL_MAP =
     [(str ''None'', Level 0),
      (str ''Novice'', Level 1),
      (str ''Intermediate'', Level 2),
      (str ''Advanced'', Level 3),
      (str ''Expert'', Level 4),
      (str ''N/A'', Text (str ''N/A''))]"

record current_skill =
  cs_Name :: pystr
  cs_Classification :: pystr
  cs_Team :: pystr
  cs_Category :: "pystr option"
  cs_SubCategory :: "pystr option"
  cs_Skill_Level_Value :: "level_value option"
  cs_Skill_Level_Desc :: "pystr option"
  cs_Team_Need_Value :: "level_value option"
  cs_Team_Need_Desc :: "pystr option"

text \<open>Reading one level cell: the cell, \<open>""\<close> replaced by \<open>"N/A"\<close>, and its value in
  \<open>SKILL_LEVEL_MAP\<close>; a text that is no key of the map is a KeyError.\<close>

definition level_of_cell :: "pystr list \<Rightarrow> nat option \<Rightarrow> py_error + (pystr \<times> level_value)" where
  "level_of_cell row col =
     (case getitem row col of
        Inl e \<Rightarrow> Inl e
      | Inr cell \<Rightarrow>
          let desc = (if cell = [] then str ''N/A'' else cell)
          in case map_of SKILL_LEVEL_MAP desc of
               None \<Rightarrow> Inl (KeyError desc)
             | Some v \<Rightarrow> Inr (desc, v))"

text \<open>The body of the inner loop of \<open>row_to_cur_skills\<close>: the output row of one
  subcategory.\<close>

definition cur_record :: "pystr list \<Rightarrow> current_skill \<Rightarrow> pystr \<Rightarrow> pystr \<Rightarrow> cur_cols
    \<Rightarrow> py_error + current_skill" where
  "cur_record row skill_dict category subcategory cols =
     (case level_of_cell row (SELF cols) of
        Inl e \<Rightarrow> Inl e
      | Inr (self_desc, self_value) \<Rightarrow>
          (case level_of_cell row (TEAM cols) of
             Inl e \<Rightarrow> Inl e
           | Inr (team_desc, team_value) \<Rightarrow>
               Inr (skill_dict\<lparr>cs_Category := Some category,
                              cs_SubCategory := Some subcategory,
                              cs_Skill_Level_Value := Some self_value,
                              cs_Skill_Level_Desc := Some self_desc,
                              cs_Team_Need_Value := Some team_value,
                              cs_Team_Need_Desc := Some team_desc\<rparr>)))"

text \<open>The inner loop, over the subcategories of one category.\<close>

fun cur_subcategory_loop :: "pystr list \<Rightarrow> current_skill \<Rightarrow> pystr
    \<Rightarrow> (pystr \<times> cur_cols) list \<Rightarrow> current_skill list \<Rightarrow> py_error + current_skill list" where
  "cur_subcategory_loop row skill_dict category [] cur_skills = Inr cur_skills"
| "cur_subcategory_loop row skill_dict category ((subcategory, cols) # rest) cur_skills =
     (case cur_record row skill_dict category subcategory cols of
        Inl e \<Rightarrow> Inl e
      | Inr cur_dict \<Rightarrow>
          cur_subcategory_loop row skill_dict category rest (cur_skills @ [cur_dict]))"

text \<open>The outer loop, over \<open>CUR_COL_MAPPING.items()\<close>.\<close>

fun cur_category_loop :: "pystr list \<Rightarrow> current_skill
    \<Rightarrow> (pystr \<times> (pystr \<times> cur_cols) list) list \<Rightarrow> current_skill list
    \<Rightarrow> py_error + current_skill list" where
  "cur_category_loop row skill_dict [] cur_skills = Inr cur_skills"
| "cur_category_loop row skill_dict ((category, subs) # rest) cur_skills =
     (if category \<in> set OTHER_COL then cur_category_loop row skill_dict rest cur_skills
      else
        (case cur_subcategory_loop row skill_dict category subs cur_skills of
           Inl e \<Rightarrow> Inl e
         | Inr cur_skills1 \<Rightarrow> cur_category_loop row skill_dict rest cur_skills1))"

definition row_to_cur_skills :: "tables \<Rightarrow> pystr list \<Rightarrow> py_error + current_skill list" where
  "row_to_cur_skills st row =
     (case common_cell st row (str ''Name'') of
        Inl e \<Rightarrow> Inl e
      | Inr name \<Rightarrow>
          (case common_cell st row (str ''Classification Level'') of
             Inl e \<Rightarrow> Inl e
           | Inr classification \<Rightarrow>
               (case common_cell st row (str ''What team are you on?'') of
                  Inl e \<Rightarrow> Inl e
                | Inr team \<Rightarrow>
                    cur_category_loop row
                      \<lparr>cs_Name = name, cs_Classification = classification, cs_Team = team,
                       cs_Category = None, cs_SubCategory = None,
                       cs_Skill_Level_Value = None, cs_Skill_Level_Desc = None,
                       cs_Team_Need_Value = None, cs_Team_Need_Desc = None\<rparr>
                      (CUR_COL_MAPPING st) [])))"

section \<open>utilities.py\<close>

text \<open>The decimal digits of a number, as an f-string formats an \<open>int\<close> that is not
  negative.\<close>

fun str_of_nat :: "nat \<Rightarrow> pystr" where
  "str_of_nat n =
     (if n < 10 then [48 + n] else str_of_nat (n div 10) @ [48 + n mod 10])"

text \<open>
  The loop of \<open>create_output\<close>. \<open>check_file_exists\<close> asks the file system, which is the
  parameter \<open>exists\<close>; the loop does not write to it. It returns the last candidate name
  and the last version.
\<close>

function version_loop :: "(pystr \<Rightarrow> bool) \<Rightarrow> pystr \<Rightarrow> nat \<Rightarrow> pystr \<times> nat" where
  "version_loop exists filename version =
     (if exists filename \<and> version < 100
      then version_loop exists
             (hd (py_split (of_char CHR ''.'') filename) @ str ''_'' @ str_of_nat version
                @ str ''.csv'')
             (version + 1)
      else (filename, version))"
  by pat_completeness auto
termination
  by (relation "measure (\<lambda>(exists, filename, version). 100 - version)") auto

text \<open>
  \<open>create_output\<close> returns \<open>0\<close> (here \<open>None\<close>) when the version reached 100, and otherwise
  the name of the file it wrote. \<open>data[0]\<close> of an empty list is an IndexError. The bytes
  written to the file are not modelled.
\<close>

definition create_output :: "(pystr \<Rightarrow> bool) \<Rightarrow> 'a list \<Rightarrow> pystr \<Rightarrow> py_error + pystr option" where
  "create_output exists data filename =
     (case version_loop exists filename 1 of
        (filename1, version) \<Rightarrow>
          if version \<ge> 100 then Inr None
          else if data = [] then Inl IndexError
          else Inr (Some filename1))"

text \<open>\<open>print_percentage\<close> divides by its second argument and returns the width of the terminal,
  which the environment gives.\<close>

definition print_percentage :: "nat \<Rightarrow> nat \<Rightarrow> int \<Rightarrow> py_error + int" where
  "print_percentage num total_rows terminal_width =
     (if total_rows = 0 then Inl ZeroDivisionError else Inr terminal_width)"

section \<open>generate_madlibs_bios.py\<close>

text \<open>Two of the column names hold the code point 8217, a right single quotation
  mark.\<close>

definition COLUMNS :: "pystr list" where
  "COLUMNS =
     [str ''Name'',
      str ''Your Name'',
      str ''What team are you on?'',
      str ''Adjective (how would you describe yourself?)'',
      str ''Role/Title (Your role or what best describes your work)'',
      str ''Tool/System/Approach (What do you love working with?)'',
      str ''Skill or Strength (What'' @ [8217] @ str ''s something you're great at?)'',
      str ''Biggest Challenge or Growth Area (What do you find tricky?)'',
      str ''Notable Experience or Achievement (Something cool you'' @ [8217] @ str ''ve done)'',
      str ''Favorite Part of Work (What makes your job fun, meaningful, or energizing)'']"

text \<open>The template, cut at its replacement fields.\<close>

datatype segment = Lit pystr | Field pystr

definition TEMPLATE :: "segment list" where
  "TEMPLATE =
     [Lit (str ''Hi, my name is ''), Field (str ''Your Name''),
      Lit (str '', and I am on the ''), Field (str ''What team are you on?''),
      Lit (str '' Team. and I am a ''),
      Field (str ''Adjective (how would you describe yourself?)''),
      Lit (str '' ''),
      Field (str ''Role/Title (Your role or what best describes your work)''),
      Lit (str '' who loves working with ''),
      Field (str ''Tool/System/Approach (What do you love working with?)''),
      Lit (str ''. My superpower is ''),
      Field (str ''Skill or Strength (What'' @ [8217] @ str ''s something you're great at?)''),
      Lit (str '', and my biggest challenge is ''),
      Field (str ''Biggest Challenge or Growth Area (What do you find tricky?)''),
      Lit (str ''. In the past, I have ''),
      Field (str ''Notable Experience or Achievement (Something cool you'' @ [8217]
               @ str ''ve done)''),
      Lit (str '', and my favorite part of my work is ''),
      Field (str ''Favorite Part of Work (What makes your job fun, meaningful, or energizing)''),
      Lit (str ''!'')]"

text \<open>\<open>xs.index(x)\<close> for an \<open>x\<close> that is in \<open>xs\<close>.\<close>

definition list_index :: "'a list \<Rightarrow> 'a \<Rightarrow> nat" where
  "list_index xs x = length (takeWhile (\<lambda>y. y \<noteq> x) xs)"

text \<open>\<open>map_cols\<close>: the inner loop stops at the first header equal to \<open>col\<close> and stores
  \<open>col\<close> under the index of that header; a column that is not found is only printed.\<close>

fun map_cols_loop :: "pystr list \<Rightarrow> pystr list \<Rightarrow> (nat \<times> pystr) list \<Rightarrow> (nat \<times> pystr) list" where
  "map_cols_loop [] header_row COL_MAPPING = COL_MAPPING"
| "map_cols_loop (col # rest) header_row COL_MAPPING =
     (case filter (\<lambda>header. col = header) header_row of
        [] \<Rightarrow> map_cols_loop rest header_row COL_MAPPING
      | header # _ \<Rightarrow>
          map_cols_loop rest header_row
            (AList.update (list_index header_row header) col COL_MAPPING))"

definition map_cols :: "pystr list \<Rightarrow> (nat \<times> pystr) list \<Rightarrow> (nat \<times> pystr) list" where
  "map_cols header_row COL_MAPPING = map_cols_loop COLUMNS header_row COL_MAPPING"

record madlib =
  FullName :: pystr
  Mad_Libs :: pystr

text \<open>The loop of \<open>row_to_madlib\<close> over \<open>COL_MAPPING.items()\<close>, on the pair
  \<open>(mad_libs_data, full_name)\<close>.\<close>

fun madlib_loop :: "pystr list \<Rightarrow> (nat \<times> pystr) list \<Rightarrow> (pystr \<times> pystr) list \<times> pystr
    \<Rightarrow> py_error + ((pystr \<times> pystr) list \<times> pystr)" where
  "madlib_loop row [] acc = Inr acc"
| "madlib_loop row ((col_num, header) # rest) (mad_libs_data, full_name) =
     (case getitem row (Some col_num) of
        Inl e \<Rightarrow> Inl e
      | Inr data \<Rightarrow>
          madlib_loop row rest
            (AList.update header data mad_libs_data,
             if header = str ''Name'' then data else full_name))"

text \<open>\<open>TEMPLATE.format(**mad_libs_data)\<close>: a field that is no key is a KeyError.\<close>

fun format_template :: "segment list \<Rightarrow> (pystr \<times> pystr) list \<Rightarrow> py_error + pystr" where
  "format_template [] kwargs = Inr []"
| "format_template (Lit t # rest) kwargs =
     (case format_template rest kwargs of
        Inl e \<Rightarrow> Inl e
      | Inr s \<Rightarrow> Inr (t @ s))"
| "format_template (Field k # rest) kwargs =
     (case map_of kwargs k of
        None \<Rightarrow> Inl (KeyError k)
      | Some v \<Rightarrow>
          (case format_template rest kwargs of
             Inl e \<Rightarrow> Inl e
           | Inr s \<Rightarrow> Inr (v @ s)))"

definition row_to_madlib :: "(nat \<times> pystr) list \<Rightarrow> pystr list \<Rightarrow> py_error + madlib" where
  "row_to_madlib COL_MAPPING row =
     (case madlib_loop row COL_MAPPING ([], []) of
        Inl e \<Rightarrow> Inl e
      | Inr (mad_libs_data, full_name) \<Rightarrow>
          (case format_template TEMPLATE mad_libs_data of
             Inl e \<Rightarrow> Inl e
           | Inr filled_mad_libs \<Rightarrow>
               Inr \<lparr>FullName = full_name, Mad_Libs = filled_mad_libs\<rparr>))"

section \<open>process.py\<close>

definition PROCESSES :: "pystr list" where
  "PROCESSES = [str ''mad_libs'', str ''current_skills'', str ''future_skills'']"

definition MAD_LIB :: nat where "MAD_LIB = 0"
definition CUR_SKILLS :: nat where "CUR_SKILLS = 1"
definition FUT_SKILLS :: nat where "FUT_SKILLS = 2"

text \<open>The built-in \<open>len\<close>, applied to the list of its arguments: it takes exactly one,
  and any other number of arguments is a TypeError.\<close>

definition py_len :: "'a list list \<Rightarrow> py_error + nat" where
  "py_len args = (case args of [xs] \<Rightarrow> Inr (length xs) | _ \<Rightarrow> Inl TypeError)"

text \<open>What the loop of \<open>process\<close> reads and writes: the global tables of the two modules,
  the three output lists, and \<open>term_len\<close>, which is unbound until the first row.\<close>

record run =
  skills_tables :: tables
  COL_MAPPING :: "(nat \<times> pystr) list"
  mad_libs :: "madlib list"
  cur_skills :: "current_skill list"
  fut_skills :: "future_skill list"
  term_len :: "int option"

definition mad_libs_step :: "nat \<Rightarrow> pystr list \<Rightarrow> run \<Rightarrow> py_error + run" where
  "mad_libs_step index row r =
     (if index = 0 then Inr (r\<lparr>COL_MAPPING := map_cols row (COL_MAPPING r)\<rparr>)
      else case row_to_madlib (COL_MAPPING r) row of
             Inl e \<Rightarrow> Inl e
           | Inr new_mad_lib \<Rightarrow> Inr (r\<lparr>mad_libs := mad_libs r @ [new_mad_lib]\<rparr>))"

definition cur_skills_step :: "mapping \<Rightarrow> nat \<Rightarrow> pystr list \<Rightarrow> run \<Rightarrow> py_error + run" where
  "cur_skills_step mapping index row r =
     (if index = 0
      then case set_cur_headers row mapping (skills_tables r) of
             Inl e \<Rightarrow> Inl e
           | Inr st \<Rightarrow> Inr (r\<lparr>skills_tables := st\<rparr>)
      else case row_to_cur_skills (skills_tables r) row of
             Inl e \<Rightarrow> Inl e
           | Inr new_cur_skills \<Rightarrow> Inr (r\<lparr>cur_skills := cur_skills r @ new_cur_skills\<rparr>))"

definition fut_skills_step :: "mapping \<Rightarrow> nat \<Rightarrow> pystr list \<Rightarrow> run \<Rightarrow> py_error + run" where
  "fut_skills_step mapping index row r =
     (if index = 0
      then case set_fut_headers row mapping (skills_tables r) of
             Inl e \<Rightarrow> Inl e
           | Inr st \<Rightarrow> Inr (r\<lparr>skills_tables := st\<rparr>)
      else case row_to_future_skills (skills_tables r) row of
             Inl e \<Rightarrow> Inl e
           | Inr future_skills \<Rightarrow> Inr (r\<lparr>fut_skills := fut_skills r @ future_skills\<rparr>))"

text \<open>The loop of \<open>process\<close> over \<open>enumerate(in_rows)\<close>. A row is a list of cells, which
  never equals the string \<open>""\<close>, so the test \<open>row == ""\<close> skips nothing.\<close>

fun process_loop :: "pystr list \<Rightarrow> mapping \<Rightarrow> int \<Rightarrow> nat \<Rightarrow> nat \<Rightarrow> pystr list list \<Rightarrow> run
    \<Rightarrow> py_error + run" where
  "process_loop processes mapping terminal_width total_rows index [] r = Inr r"
| "process_loop processes mapping terminal_width total_rows index (row # rest) r =
     (case print_percentage index total_rows terminal_width of
        Inl e \<Rightarrow> Inl e
      | Inr w \<Rightarrow>
          (case (if PROCESSES ! MAD_LIB \<in> set processes
                 then mad_libs_step index row (r\<lparr>term_len := Some w\<rparr>)
                 else Inr (r\<lparr>term_len := Some w\<rparr>)) of
             Inl e \<Rightarrow> Inl e
           | Inr r1 \<Rightarrow>
               (case (if PROCESSES ! CUR_SKILLS \<in> set processes
                      then cur_skills_step mapping index row r1
                      else Inr r1) of
                  Inl e \<Rightarrow> Inl e
                | Inr r2 \<Rightarrow>
                    (case (if PROCESSES ! FUT_SKILLS \<in> set processes
                           then fut_skills_step mapping index row r2
                           else Inr r2) of
                       Inl e \<Rightarrow> Inl e
                     | Inr r3 \<Rightarrow>
                         process_loop processes mapping terminal_width total_rows
                           (Suc index) rest r3))))"

text \<open>
  \<open>process\<close>: the first statement after the three empty lists is \<open>total_rows = len()\<close>,
  a call of \<open>len\<close> with no argument. After the loop \<open>term_len\<close> is printed, which is an
  UnboundLocalError when the loop never ran.
\<close>

definition process :: "pystr list \<Rightarrow> pystr list list \<Rightarrow> mapping \<Rightarrow> int \<Rightarrow> tables
    \<Rightarrow> (nat \<times> pystr) list
    \<Rightarrow> py_error + (madlib list \<times> current_skill list \<times> future_skill list)" where
  "process processes in_rows mapping terminal_width st madlib_cols =
     (case py_len ([] :: pystr list list list) of
        Inl e \<Rightarrow> Inl e
      | Inr total_rows \<Rightarrow>
          (case process_loop processes mapping terminal_width total_rows 0 in_rows
                  \<lparr>skills_tables = st, COL_MAPPING = madlib_cols, mad_libs = [],
                   cur_skills = [], fut_skills = [], term_len = None\<rparr> of
             Inl e \<Rightarrow> Inl e
           | Inr r \<Rightarrow>
               (case term_len r of
                  None \<Rightarrow> Inl UnboundLocalError
                | Some w \<Rightarrow> Inr (mad_libs r, cur_skills r, fut_skills r))))"

section \<open>An example survey\<close>

text \<open>A mapping with one category and one subcategory, a header row with the three
  identity columns and the four questions of the category, the tables that the two header
  matchers build from them, and two answer rows.\<close>

definition example_mapping :: mapping where
  "example_mapping = [(str ''Cloud'', [str ''AWS''])]"

definition example_header :: "pystr list" where
  "example_header =
     [str ''ID'', str ''Name'', str ''Classification Level'', str ''What team are you on?'',
      str ''How would you describe your current experience or comfort level with Cloud?.AWS (examples: EC2, S3)'',
      str ''Based on what you know today, what level of Cloud skills do you think your team will need over the next 12 months?.AWS (examples: EC2, S3)'',
      str ''Which Cloud skills would you like to use in your day-to-day work, or feel are underused?'',
      str ''Are there Cloud skills you are interested in learning or continuing to develop?'']"

definition example_tables :: tables where
  "example_tables =
     \<lparr>CUR_COL_MAPPING = [(str ''Cloud'', [(str ''AWS'', \<lparr>SELF = Some 4, TEAM = Some 5\<rparr>)])],
      FUT_COL_MAPPING = [(str ''Cloud'', \<lparr>USE = Some 6, LEARN = Some 7\<rparr>)],
      COMMON_COL_MAPPING =
        [(str ''Name'', 1), (str ''Classification Level'', 2), (str ''What team are you on?'', 3)],
      FUT_COLS = [(str ''Cloud'', [(str ''AWS'', \<lparr>USE_count = 0, LEARN_count = 0\<rparr>)])]\<rparr>"

definition example_row :: "pystr list" where
  "example_row =
     [str ''1'', str ''Ann'', str ''Band 3'', str ''Platform'', [], str ''Expert'',
      str ''AWS (EC2); Terraform;AWS'', str ''Terraform; Go'']"


definition example_blank_row :: "pystr list" where
  "example_blank_row =
     [str ''3'', str ''Cy'', str ''Band 1'', str ''Platform'', [], [], [], []]"







section \<open>Properties of the string helpers\<close>

lemma str_eq_iff [simp]: "(str a = str b) = (a = b)"
  by (rule inj_map_eq_map) (simp add: inj_def)

lemma py_split_nonempty: "py_split sep s \<noteq> []"
  by (induction s) (auto split: list.splits)

lemma hd_py_split: "hd (py_split sep s) = takeWhile (\<lambda>c. c \<noteq> sep) s"
  by (induction s) (auto split: list.splits simp: py_split_nonempty)

lemma set_strip_subset: "set (strip s) \<subseteq> set s"
proof -
  have "set (strip s) \<subseteq> set (dropWhile isspace s)"
    unfolding strip_def using set_dropWhileD by fastforce
  also have "\<dots> \<subseteq> set s"
    using set_dropWhileD by fastforce
  finally show ?thesis .
qed

lemma dropWhile_rev_dropWhile:
  "dropWhile P (rev (dropWhile P (rev (dropWhile P s)))) = rev (dropWhile P (rev (dropWhile P s)))"
proof -
  define y where "y = dropWhile P s"
  define t where "t = rev (dropWhile P (rev y))"
  have "dropWhile P t = t"
  proof (cases t)
    case Nil
    then show ?thesis by simp
  next
    case (Cons z zs)
    obtain ws where "rev y = ws @ dropWhile P (rev y)"
      by (metis takeWhile_dropWhile_id)
    then have "y = t @ rev ws"
      unfolding t_def by (metis rev_append rev_rev_ident)
    then have "y = z # (zs @ rev ws)"
      using Cons by simp
    then have "\<not> P z"
      unfolding y_def by (metis hd_dropWhile list.sel(1) list.distinct(1))
    then show ?thesis
      using Cons by simp
  qed
  then show ?thesis
    by (simp add: t_def y_def)
qed

lemma strip_idem: "strip (strip s) = strip s"
proof -
  have "strip (strip s) = rev (dropWhile isspace (rev (strip s)))"
    unfolding strip_def by (simp only: dropWhile_rev_dropWhile)
  also have "\<dots> = rev (dropWhile isspace (dropWhile isspace (rev (dropWhile isspace s))))"
    by (simp add: strip_def)
  also have "\<dots> = strip s"
    by (simp add: strip_def dropWhile_idem)
  finally show ?thesis .
qed

lemma clean_subcategory_takeWhile:
  "clean_subcategory x = strip (takeWhile (\<lambda>c. c \<noteq> of_char CHR ''('') x)"
proof (cases "of_char CHR ''('' \<in> set x")
  case True
  then show ?thesis
    by (simp add: clean_subcategory_def hd_py_split)
next
  case False
  then have tw: "takeWhile (\<lambda>c. c \<noteq> of_char CHR ''('') x = x"
    by (intro takeWhile_eq_all_conv[THEN iffD2]) auto
  show ?thesis
    unfolding tw using False by (simp add: clean_subcategory_def)
qed

lemma clean_subcategory_no_paren: "of_char CHR ''('' \<notin> set (clean_subcategory x)"
proof -
  have "of_char CHR ''('' \<notin> set (takeWhile (\<lambda>c. c \<noteq> of_char CHR ''('') x)"
    using set_takeWhileD by fastforce
  then show ?thesis
    unfolding clean_subcategory_takeWhile using set_strip_subset by blast
qed

lemma subcategory_loop_eq:
  "subcategory_loop in_list ret_li
     = ret_li @ map clean_subcategory (filter (\<lambda>ele. ele \<noteq> []) in_list)"
  by (induction in_list arbitrary: ret_li) simp_all

text \<open>
  C8. Cleaning a subcategory is idempotent: cleaning an already cleaned string returns it
  unchanged, for every string.
\<close>

theorem clean_subcategory_idempotent:
  "clean_subcategory (clean_subcategory x) = clean_subcategory x"
proof -
  have "of_char CHR ''('' \<notin> set (clean_subcategory x)"
    by (rule clean_subcategory_no_paren)
  then have "clean_subcategory (clean_subcategory x) = strip (clean_subcategory x)"
    by (simp add: clean_subcategory_def[of "clean_subcategory x"])
  also have "\<dots> = clean_subcategory x"
    by (simp add: clean_subcategory_takeWhile strip_idem)
  finally show ?thesis .
qed

section \<open>The subcategory list parser\<close>

text \<open>
  C10. \<open>str_to_subcategory_list\<close> drops exactly the fragments between semicolons that are
  empty before cleaning: its result is the cleaned form of every other fragment, in order.
  So a fragment that is not empty and whose cleaned form is empty, such as one of white
  space only or a parenthetical only, stays in the list as an empty string.
\<close>

theorem str_to_subcategory_list_drops_only_empty:
  "str_to_subcategory_list in_str
     = map clean_subcategory (filter (\<lambda>ele. ele \<noteq> []) (py_split (of_char CHR '';'') in_str))
   \<and> str_to_subcategory_list (str '' (example)'') = [[]]
   \<and> str_to_subcategory_list (str ''AWS;  ;Go'') = [str ''AWS'', [], str ''Go'']"
proof (intro conjI)
  show "str_to_subcategory_list in_str
     = map clean_subcategory (filter (\<lambda>ele. ele \<noteq> []) (py_split (of_char CHR '';'') in_str))"
    by (cases in_str)
      (simp_all add: str_to_subcategory_list_def subcategory_loop_eq del: py_split.simps(2))
  show "str_to_subcategory_list (str '' (example)'') = [[]]"
    by (simp add: str_to_subcategory_list_def clean_subcategory_def strip_def isspace_def)
  show "str_to_subcategory_list (str ''AWS;  ;Go'') = [str ''AWS'', [], str ''Go'']"
    by (simp add: str_to_subcategory_list_def clean_subcategory_def strip_def isspace_def)
qed

section \<open>The example survey, evaluated\<close>

text \<open>The two header matchers, run one after the other on the example header as the
  driver's loop does for the first row, build the example tables.\<close>

lemmas match_defs = use_match_def learn_match_def self_match_def team_match_def
  match_one_group_def re_subject_def strip_def isspace_def clean_subcategory_def

lemma example_tables_built:
  "set_cur_headers example_header example_mapping init_tables
     = Inr (init_tables\<lparr>CUR_COL_MAPPING := CUR_COL_MAPPING example_tables,
                        COMMON_COL_MAPPING := COMMON_COL_MAPPING example_tables\<rparr>)
   \<and> set_fut_headers example_header example_mapping
       (init_tables\<lparr>CUR_COL_MAPPING := CUR_COL_MAPPING example_tables,
                    COMMON_COL_MAPPING := COMMON_COL_MAPPING example_tables\<rparr>)
     = Inr example_tables"
  by (simp add: set_cur_headers_def set_fut_headers_def example_header_def example_mapping_def
      init_tables_def example_tables_def OTHER_COL_def set_common_headers_def set_cur_col_def
      set_fut_use_def set_fut_learn_def match_defs)

lemma example_future:
  "row_to_future_skills example_tables example_row
     = Inr [\<lparr>fs_Name = str ''Ann'', fs_Classification = str ''Band 3'', fs_Team = str ''Platform'',
             fs_Category = Some (str ''Cloud''), fs_SubCategory = Some (str ''AWS''),
             fs_Use = Some 1, fs_Learn = Some 0\<rparr>,
            \<lparr>fs_Name = str ''Ann'', fs_Classification = str ''Band 3'', fs_Team = str ''Platform'',
             fs_Category = Some (str ''Cloud''), fs_SubCategory = Some (str ''Terraform''),
             fs_Use = Some 1, fs_Learn = Some 1\<rparr>,
            \<lparr>fs_Name = str ''Ann'', fs_Classification = str ''Band 3'', fs_Team = str ''Platform'',
             fs_Category = Some (str ''Cloud''), fs_SubCategory = Some (str ''Go''),
             fs_Use = Some 0, fs_Learn = Some 1\<rparr>]"
  by (simp add: row_to_future_skills_def common_cell_def getitem_def example_tables_def
      example_row_def str_to_subcategory_list_def clean_subcategory_def strip_def isspace_def
      create_new_rows_def Let_def)

section \<open>The future-skills reshaper\<close>

lemma fs_update_commute:
  "(r::future_skill)\<lparr>fs_Learn := a, fs_Use := b\<rparr> = r\<lparr>fs_Use := b, fs_Learn := a\<rparr>"
  by (cases r) simp

lemma use_loop_rows:
  assumes "set xs \<subseteq> set use_li"
    and "rows = map (\<lambda>s. temp_row\<lparr>fs_SubCategory := Some s,
                  fs_Use := Some (if s \<in> set use_li then 1 else 0),
                  fs_Learn := Some (if s \<in> set learn_li then 1 else 0)\<rparr>) added"
    and "distinct added"
  shows "\<exists>added'. use_loop xs learn_li temp_row (rows, added)
           = (map (\<lambda>s. temp_row\<lparr>fs_SubCategory := Some s,
                  fs_Use := Some (if s \<in> set use_li then 1 else 0),
                  fs_Learn := Some (if s \<in> set learn_li then 1 else 0)\<rparr>) added', added')
         \<and> distinct added' \<and> set added' = set added \<union> set xs"
  using assms
proof (induction xs arbitrary: rows added)
  case Nil
  then show ?case by simp
next
  case (Cons x xs)
  show ?case
  proof (cases "x \<in> set added")
    case True
    with Cons.IH[of rows added] Cons.prems show ?thesis by auto
  next
    case False
    let ?r = "temp_row\<lparr>fs_SubCategory := Some x,
                  fs_Use := Some (if x \<in> set use_li then 1 else 0),
                  fs_Learn := Some (if x \<in> set learn_li then 1 else 0)\<rparr>"
    have "\<exists>added'. use_loop xs learn_li temp_row (rows @ [?r], added @ [x])
           = (map (\<lambda>s. temp_row\<lparr>fs_SubCategory := Some s,
                  fs_Use := Some (if s \<in> set use_li then 1 else 0),
                  fs_Learn := Some (if s \<in> set learn_li then 1 else 0)\<rparr>) added', added')
         \<and> distinct added' \<and> set added' = set (added @ [x]) \<union> set xs"
      using Cons.prems False by (intro Cons.IH) auto
    moreover have "x \<in> set use_li" using Cons.prems by simp
    ultimately show ?thesis using False by (auto simp: Let_def)
  qed
qed

lemma learn_loop_rows:
  assumes "set xs \<subseteq> set learn_li"
    and "rows = map (\<lambda>s. temp_row\<lparr>fs_SubCategory := Some s,
                  fs_Use := Some (if s \<in> set use_li then 1 else 0),
                  fs_Learn := Some (if s \<in> set learn_li then 1 else 0)\<rparr>) added"
    and "distinct added"
  shows "\<exists>added'. learn_loop xs use_li temp_row (rows, added)
           = (map (\<lambda>s. temp_row\<lparr>fs_SubCategory := Some s,
                  fs_Use := Some (if s \<in> set use_li then 1 else 0),
                  fs_Learn := Some (if s \<in> set learn_li then 1 else 0)\<rparr>) added', added')
         \<and> distinct added' \<and> set added' = set added \<union> set xs"
  using assms
proof (induction xs arbitrary: rows added)
  case Nil
  then show ?case by simp
next
  case (Cons x xs)
  show ?case
  proof (cases "x \<in> set added")
    case True
    with Cons.IH[of rows added] Cons.prems show ?thesis by auto
  next
    case False
    let ?r = "temp_row\<lparr>fs_SubCategory := Some x,
                  fs_Use := Some (if x \<in> set use_li then 1 else 0),
                  fs_Learn := Some (if x \<in> set learn_li then 1 else 0)\<rparr>"
    have "\<exists>added'. learn_loop xs use_li temp_row (rows @ [?r], added @ [x])
           = (map (\<lambda>s. temp_row\<lparr>fs_SubCategory := Some s,
                  fs_Use := Some (if s \<in> set use_li then 1 else 0),
                  fs_Learn := Some (if s \<in> set learn_li then 1 else 0)\<rparr>) added', added')
         \<and> distinct added' \<and> set added' = set (added @ [x]) \<union> set xs"
      using Cons.prems False by (intro Cons.IH) auto
    moreover have "x \<in> set learn_li" using Cons.prems by simp
    ultimately show ?thesis using False by (auto simp: Let_def fs_update_commute)
  qed
qed

lemma create_new_rows_eq:
  "\<exists>added. create_new_rows use_li learn_li temp_row
       = map (\<lambda>s. temp_row\<lparr>fs_SubCategory := Some s,
                  fs_Use := Some (if s \<in> set use_li then 1 else 0),
                  fs_Learn := Some (if s \<in> set learn_li then 1 else 0)\<rparr>) added
     \<and> distinct added \<and> set added = set use_li \<union> set learn_li"
proof -
  obtain a1 where 1: "use_loop use_li learn_li temp_row ([], [])
           = (map (\<lambda>s. temp_row\<lparr>fs_SubCategory := Some s,
                  fs_Use := Some (if s \<in> set use_li then 1 else 0),
                  fs_Learn := Some (if s \<in> set learn_li then 1 else 0)\<rparr>) a1, a1)"
      and "distinct a1" and "set a1 = set use_li"
    using use_loop_rows[where xs = use_li and use_li = use_li and rows = "[]" and added = "[]"
        and temp_row = temp_row and learn_li = learn_li] by auto
  then obtain a2 where "learn_loop learn_li use_li temp_row
             (use_loop use_li learn_li temp_row ([], []))
           = (map (\<lambda>s. temp_row\<lparr>fs_SubCategory := Some s,
                  fs_Use := Some (if s \<in> set use_li then 1 else 0),
                  fs_Learn := Some (if s \<in> set learn_li then 1 else 0)\<rparr>) a2, a2)"
      and "distinct a2" and "set a2 = set use_li \<union> set learn_li"
    using learn_loop_rows[where xs = learn_li and learn_li = learn_li and added = a1
        and temp_row = temp_row and use_li = use_li, OF subset_refl refl]
    unfolding 1 by auto
  then show ?thesis
    unfolding create_new_rows_def by auto
qed




lemma create_new_rows_keys:
  "distinct (map fs_SubCategory (create_new_rows use_li learn_li temp_row))
   \<and> (\<forall>r \<in> set (create_new_rows use_li learn_li temp_row).
         fs_Name r = fs_Name temp_row \<and> fs_Category r = fs_Category temp_row)"
proof -
  obtain added where eq: "create_new_rows use_li learn_li temp_row
       = map (\<lambda>s. temp_row\<lparr>fs_SubCategory := Some s,
                  fs_Use := Some (if s \<in> set use_li then 1 else 0),
                  fs_Learn := Some (if s \<in> set learn_li then 1 else 0)\<rparr>) added"
     and d: "distinct added"
    using create_new_rows_eq by blast
  show ?thesis
    unfolding eq using d by (simp add: comp_def distinct_map inj_on_def)
qed

lemma future_loop_distinct:
  assumes "future_loop st row skill_dict cats acc = Inr recs"
    and "distinct (map fst cats)"
    and "distinct (map (\<lambda>r. (fs_Name r, fs_Category r, fs_SubCategory r)) acc)"
    and "\<forall>r \<in> set acc. fs_Category r \<notin> Some ` fst ` set cats"
  shows "distinct (map (\<lambda>r. (fs_Name r, fs_Category r, fs_SubCategory r)) recs)"
  using assms
proof (induction cats arbitrary: acc)
  case Nil
  then show ?case by simp
next
  case (Cons ele rest)
  from Cons.prems(1) obtain cols use_cell learn_cell where
    step: "future_loop st row skill_dict rest
            (acc @ create_new_rows (str_to_subcategory_list use_cell)
                     (str_to_subcategory_list learn_cell)
                     (skill_dict\<lparr>fs_Category := Some (fst ele)\<rparr>)) = Inr recs"
    by (auto simp: Let_def split: option.splits sum.splits)
  let ?rs = "create_new_rows (str_to_subcategory_list use_cell)
                     (str_to_subcategory_list learn_cell)
                     (skill_dict\<lparr>fs_Category := Some (fst ele)\<rparr>)"
  have rs: "distinct (map fs_SubCategory ?rs)"
    "\<forall>r \<in> set ?rs. fs_Name r = fs_Name skill_dict \<and> fs_Category r = Some (fst ele)"
    using create_new_rows_keys[of "str_to_subcategory_list use_cell"
        "str_to_subcategory_list learn_cell" "skill_dict\<lparr>fs_Category := Some (fst ele)\<rparr>"]
    by simp_all
  have d_rs: "distinct (map (\<lambda>r. (fs_Name r, fs_Category r, fs_SubCategory r)) ?rs)"
    using rs(1) by (simp add: distinct_map inj_on_def)
  have disj: "\<forall>r \<in> set acc. \<forall>r' \<in> set ?rs. fs_Category r \<noteq> fs_Category r'"
    using Cons.prems(4) rs(2) by force
  have d_acc: "distinct (map (\<lambda>r. (fs_Name r, fs_Category r, fs_SubCategory r)) (acc @ ?rs))"
    using Cons.prems(3) d_rs disj by auto
  have fresh: "\<forall>r \<in> set (acc @ ?rs). fs_Category r \<notin> Some ` fst ` set rest"
    using Cons.prems(2,4) rs(2) by (force simp: image_iff)
  show ?case
    using Cons.IH[OF step _ d_acc fresh] Cons.prems(2) by simp
qed

text \<open>
  C4. The rows that \<open>row_to_future_skills\<close> returns for one respondent row never repeat a
  triple of respondent, category and subcategory. \<open>FUT_COLS\<close> is a \<open>dict\<close>, so its keys
  are distinct.
\<close>

theorem row_to_future_skills_no_duplicates:
  assumes "distinct (map fst (FUT_COLS st))"
    and "row_to_future_skills st row = Inr recs"
  shows "distinct (map (\<lambda>r. (fs_Name r, fs_Category r, fs_SubCategory r)) recs)"
proof -
  from assms(2) obtain skill_dict where
    "future_loop st row skill_dict (FUT_COLS st) [] = Inr recs"
    by (auto simp: row_to_future_skills_def split: sum.splits)
  then show ?thesis
    using assms(1) by (rule future_loop_distinct) simp_all
qed

theorem row_to_future_skills_no_duplicates_witness:
  "distinct (map fst (FUT_COLS example_tables))
   \<and> (\<exists>recs. row_to_future_skills example_tables example_row = Inr recs
        \<and> length recs = 3
        \<and> distinct (map (\<lambda>r. (fs_Name r, fs_Category r, fs_SubCategory r)) recs))"
proof -
  have d: "distinct (map fst (FUT_COLS example_tables))"
    by (simp add: example_tables_def)
  show ?thesis
    using d row_to_future_skills_no_duplicates[OF d example_future] example_future
    by simp
qed

section \<open>The current-skills reshaper\<close>


lemma level_of_cell_cases:
  assumes "getitem row col = Inr c"
  shows "level_of_cell row col =
           (if c = [] then Inr (str ''N/A'', Text (str ''N/A''))
            else case map_of SKILL_LEVEL_MAP c of
                   None \<Rightarrow> Inl (KeyError c)
                 | Some v \<Rightarrow> Inr (c, v))"
  using assms by (simp add: level_of_cell_def Let_def) (simp add: SKILL_LEVEL_MAP_def)


lemma cur_record_fields:
  assumes "cur_record row skill_dict category subcategory cols = Inr r"
  shows "cs_Category r = Some category \<and> cs_SubCategory r = Some subcategory
       \<and> (\<exists>d v. level_of_cell row (SELF cols) = Inr (d, v)
              \<and> cs_Skill_Level_Desc r = Some d \<and> cs_Skill_Level_Value r = Some v)
       \<and> (\<exists>d v. level_of_cell row (TEAM cols) = Inr (d, v)
              \<and> cs_Team_Need_Desc r = Some d \<and> cs_Team_Need_Value r = Some v)"
  using assms by (auto simp: cur_record_def split: sum.splits prod.splits)

lemma cur_subcategory_loop_set:
  assumes "cur_subcategory_loop row skill_dict category subs acc = Inr recs"
  shows "set recs = set acc \<union>
           {r. \<exists>(subcategory, cols) \<in> set subs.
                 cur_record row skill_dict category subcategory cols = Inr r}"
  using assms
proof (induction subs arbitrary: acc)
  case Nil
  then show ?case by simp
next
  case (Cons p subs)
  obtain subcategory cols where p: "p = (subcategory, cols)" by (cases p)
  from Cons.prems obtain cur_dict where
    c: "cur_record row skill_dict category subcategory cols = Inr cur_dict"
    and l: "cur_subcategory_loop row skill_dict category subs (acc @ [cur_dict]) = Inr recs"
    unfolding p by (auto split: sum.splits)
  show ?case
    unfolding Cons.IH[OF l] p using c by auto
qed

lemma cur_subcategory_loop_error:
  "(cur_subcategory_loop row skill_dict category subs acc = Inl e
      \<longrightarrow> (\<exists>(subcategory, cols) \<in> set subs.
             cur_record row skill_dict category subcategory cols = Inl e))
   \<and> ((\<exists>(subcategory, cols) \<in> set subs. \<exists>e'.
             cur_record row skill_dict category subcategory cols = Inl e')
      \<longrightarrow> (\<exists>e'. cur_subcategory_loop row skill_dict category subs acc = Inl e'))"
proof (induction subs arbitrary: acc)
  case Nil
  then show ?case by simp
next
  case (Cons p subs)
  obtain subcategory cols where p: "p = (subcategory, cols)" by (cases p)
  show ?case
  proof (cases "cur_record row skill_dict category subcategory cols")
    case (Inl e')
    then show ?thesis unfolding p by auto
  next
    case (Inr cur_dict)
    then show ?thesis
      unfolding p using Cons.IH[of "acc @ [cur_dict]"] by auto
  qed
qed

lemma cur_category_loop_set:
  assumes "cur_category_loop row skill_dict cats acc = Inr recs"
  shows "set recs = set acc \<union>
           {r. \<exists>(category, subs) \<in> set cats. category \<notin> set OTHER_COL \<and>
                 (\<exists>(subcategory, cols) \<in> set subs.
                    cur_record row skill_dict category subcategory cols = Inr r)}"
  using assms
proof (induction cats arbitrary: acc)
  case Nil
  then show ?case by simp
next
  case (Cons p cats)
  obtain category subs where p: "p = (category, subs)" by (cases p)
  show ?case
  proof (cases "category \<in> set OTHER_COL")
    case True
    with Cons.prems have "cur_category_loop row skill_dict cats acc = Inr recs"
      unfolding p by simp
    from Cons.IH[OF this] True show ?thesis unfolding p by auto
  next
    case False
    with Cons.prems obtain acc1 where
      s: "cur_subcategory_loop row skill_dict category subs acc = Inr acc1"
      and l: "cur_category_loop row skill_dict cats acc1 = Inr recs"
      unfolding p by (auto split: sum.splits)
    show ?thesis
      unfolding Cons.IH[OF l] cur_subcategory_loop_set[OF s] p using False by auto
  qed
qed

lemma cur_category_loop_error:
  "(cur_category_loop row skill_dict cats acc = Inl e
      \<longrightarrow> (\<exists>(category, subs) \<in> set cats. category \<notin> set OTHER_COL \<and>
             (\<exists>(subcategory, cols) \<in> set subs.
                cur_record row skill_dict category subcategory cols = Inl e)))
   \<and> ((\<exists>(category, subs) \<in> set cats. category \<notin> set OTHER_COL \<and>
             (\<exists>(subcategory, cols) \<in> set subs. \<exists>e'.
                cur_record row skill_dict category subcategory cols = Inl e'))
      \<longrightarrow> (\<exists>e'. cur_category_loop row skill_dict cats acc = Inl e'))"
proof (induction cats arbitrary: acc)
  case Nil
  then show ?case by simp
next
  case (Cons p cats)
  obtain category subs where p: "p = (category, subs)" by (cases p)
  show ?case
  proof (cases "category \<in> set OTHER_COL")
    case True
    then show ?thesis unfolding p using Cons.IH[of acc] by auto
  next
    case False
    show ?thesis
    proof (cases "cur_subcategory_loop row skill_dict category subs acc")
      case (Inl e')
      then show ?thesis
        unfolding p using False cur_subcategory_loop_error[of row skill_dict category subs acc e']
        by auto
    next
      case (Inr acc1)
      have none: "\<not> (\<exists>(subcategory, cols) \<in> set subs. \<exists>e'.
             cur_record row skill_dict category subcategory cols = Inl e')"
        using cur_subcategory_loop_error[of row skill_dict category subs acc] Inr by auto
      show ?thesis
        unfolding p using False Inr none Cons.IH[of acc1] by auto
    qed
  qed
qed

lemma row_to_cur_skills_loop:
  "(\<exists>e. row_to_cur_skills st row = Inl e \<and>
        (\<exists>key \<in> set OTHER_COL. common_cell st row key = Inl e))
   \<or> (\<exists>skill_dict. row_to_cur_skills st row
          = cur_category_loop row skill_dict (CUR_COL_MAPPING st) [])"
  by (auto simp: row_to_cur_skills_def OTHER_COL_def split: sum.splits)

lemma dict_value_unique:
  "distinct (map fst d) \<Longrightarrow> (k, a) \<in> set d \<Longrightarrow> (k, b) \<in> set d \<Longrightarrow> a = b"
  by (metis map_of_eq_Some_iff option.inject)

lemma example_current:
  "row_to_cur_skills example_tables example_blank_row
     = Inr [\<lparr>cs_Name = str ''Cy'', cs_Classification = str ''Band 1'', cs_Team = str ''Platform'',
             cs_Category = Some (str ''Cloud''), cs_SubCategory = Some (str ''AWS''),
             cs_Skill_Level_Value = Some (Text (str ''N/A'')),
             cs_Skill_Level_Desc = Some (str ''N/A''),
             cs_Team_Need_Value = Some (Text (str ''N/A'')),
             cs_Team_Need_Desc = Some (str ''N/A'')\<rparr>]"
  by (simp add: row_to_cur_skills_def common_cell_def getitem_def example_tables_def
      example_blank_row_def OTHER_COL_def cur_record_def level_of_cell_def SKILL_LEVEL_MAP_def
      Let_def)


text \<open>
  C6. When \<open>row_to_cur_skills\<close> returns, every pair of a category and a subcategory of
  the table has an output row, and in each output row of the pair an empty self-level cell
  gives Skill Level Desc = "N/A" and Skill Level Value = the text "N/A" (not a number),
  and an empty team-need cell gives the same for Team Need Desc and Team Need Value. The
  tables are \<open>dict\<close>s, so their keys are distinct.
\<close>

theorem row_to_cur_skills_empty_cell:
  assumes ok: "row_to_cur_skills st row = Inr recs"
    and d1: "distinct (map fst (CUR_COL_MAPPING st))"
    and c: "(category, subs) \<in> set (CUR_COL_MAPPING st)"
    and d2: "distinct (map fst subs)"
    and o: "category \<notin> set OTHER_COL"
    and s: "(subcategory, cols) \<in> set subs"
  shows "(\<exists>r \<in> set recs. cs_Category r = Some category \<and> cs_SubCategory r = Some subcategory)
       \<and> (\<forall>r \<in> set recs.
            cs_Category r = Some category \<and> cs_SubCategory r = Some subcategory \<longrightarrow>
              (getitem row (SELF cols) = Inr [] \<longrightarrow>
                 cs_Skill_Level_Desc r = Some (str ''N/A'')
                 \<and> cs_Skill_Level_Value r = Some (Text (str ''N/A'')))
            \<and> (getitem row (TEAM cols) = Inr [] \<longrightarrow>
                 cs_Team_Need_Desc r = Some (str ''N/A'')
                 \<and> cs_Team_Need_Value r = Some (Text (str ''N/A''))))"
proof -
  from ok obtain skill_dict where
    loop: "cur_category_loop row skill_dict (CUR_COL_MAPPING st) [] = Inr recs"
    using row_to_cur_skills_loop[of st row] by auto
  note recs = cur_category_loop_set[OF loop]
  have no_err: "\<not> (\<exists>e'. cur_record row skill_dict category subcategory cols = Inl e')"
    using cur_category_loop_error[of row skill_dict "CUR_COL_MAPPING st" "[]"] loop c o s
    by fastforce
  then obtain r0 where r0: "cur_record row skill_dict category subcategory cols = Inr r0"
    by (cases "cur_record row skill_dict category subcategory cols") auto
  have ex: "\<exists>r \<in> set recs. cs_Category r = Some category \<and> cs_SubCategory r = Some subcategory"
  proof
    show "r0 \<in> set recs"
      unfolding recs using c o s r0 by auto
    show "cs_Category r0 = Some category \<and> cs_SubCategory r0 = Some subcategory"
      using cur_record_fields[OF r0] by simp
  qed
  have all: "r = r0"
    if "r \<in> set recs" "cs_Category r = Some category" "cs_SubCategory r = Some subcategory" for r
  proof -
    from that(1) obtain category' subs' subcategory' cols' where
      c': "(category', subs') \<in> set (CUR_COL_MAPPING st)"
      and s': "(subcategory', cols') \<in> set subs'"
      and r: "cur_record row skill_dict category' subcategory' cols' = Inr r"
      unfolding recs by auto
    from cur_record_fields[OF r] that(2,3)
    have "category' = category" "subcategory' = subcategory" by simp_all
    with c' s' have "subs' = subs"
      using dict_value_unique[OF d1 _ c] by blast
    with s' \<open>subcategory' = subcategory\<close> have "cols' = cols"
      using dict_value_unique[OF d2 _ s] by blast
    with r r0 \<open>category' = category\<close> \<open>subcategory' = subcategory\<close> show ?thesis by simp
  qed
  have self: "cs_Skill_Level_Desc r0 = Some (str ''N/A'')
                 \<and> cs_Skill_Level_Value r0 = Some (Text (str ''N/A''))"
    if "getitem row (SELF cols) = Inr []"
    using cur_record_fields[OF r0] level_of_cell_cases[OF that] by auto
  have team: "cs_Team_Need_Desc r0 = Some (str ''N/A'')
                 \<and> cs_Team_Need_Value r0 = Some (Text (str ''N/A''))"
    if "getitem row (TEAM cols) = Inr []"
    using cur_record_fields[OF r0] level_of_cell_cases[OF that] by auto
  show ?thesis
    using ex all self team by blast
qed

theorem row_to_cur_skills_empty_cell_witness:
  "\<exists>r. row_to_cur_skills example_tables example_blank_row = Inr [r]
     \<and> getitem example_blank_row (Some 4) = Inr []
     \<and> getitem example_blank_row (Some 5) = Inr []
     \<and> cs_Category r = Some (str ''Cloud'') \<and> cs_SubCategory r = Some (str ''AWS'')
     \<and> cs_Skill_Level_Desc r = Some (str ''N/A'')
     \<and> cs_Skill_Level_Value r = Some (Text (str ''N/A''))
     \<and> cs_Team_Need_Desc r = Some (str ''N/A'')
     \<and> cs_Team_Need_Value r = Some (Text (str ''N/A''))"
proof -
  have d1: "distinct (map fst (CUR_COL_MAPPING example_tables))"
    by (simp add: example_tables_def)
  have c: "(str ''Cloud'', [(str ''AWS'', \<lparr>SELF = Some 4, TEAM = Some 5\<rparr>)])
             \<in> set (CUR_COL_MAPPING example_tables)"
    by (simp add: example_tables_def)
  have d2: "distinct (map fst [(str ''AWS'', \<lparr>SELF = Some 4, TEAM = Some 5\<rparr>)])"
    by simp
  have o: "str ''Cloud'' \<notin> set OTHER_COL"
    by (simp add: OTHER_COL_def)
  have s: "(str ''AWS'', \<lparr>SELF = Some 4, TEAM = Some 5\<rparr>)
             \<in> set [(str ''AWS'', \<lparr>SELF = Some 4, TEAM = Some 5\<rparr>)]"
    by simp
  have g: "getitem example_blank_row (Some 4) = Inr []"
    "getitem example_blank_row (Some 5) = Inr []"
    by (simp_all add: getitem_def example_blank_row_def)
  from row_to_cur_skills_empty_cell[OF example_current d1 c d2 o s] g
  show ?thesis
    using example_current by simp
qed







section \<open>The header matchers\<close>

lemma map_of_None_iff: "map_of d k = None \<longleftrightarrow> k \<notin> fst ` set d"
  by (simp add: map_of_eq_None_iff)

lemma OTHER_COL_no_match:
  assumes "col \<in> set OTHER_COL"
  shows "use_match col = None \<and> learn_match col = None
       \<and> self_match col = None \<and> team_match col = None"
proof -
  have "\<forall>col \<in> set OTHER_COL. use_match col = None \<and> learn_match col = None
       \<and> self_match col = None \<and> team_match col = None"
    by (simp add: OTHER_COL_def match_defs)
  with assms show ?thesis by blast
qed

subsection \<open>Future-skill headers\<close>

lemma fut_init_keys:
  "fst ` set (FUT_COL_MAPPING (fut_init mapping st))
     = fst ` set (FUT_COL_MAPPING st) \<union> fst ` set mapping"
proof (induction mapping arbitrary: st)
  case Nil
  then show ?case by simp
next
  case (Cons p mapping)
  obtain category subcategories where p: "p = (category, subcategories)" by (cases p)
  show ?case
    unfolding p fut_init.simps Cons.IH by (simp add: dom_update)
qed

lemma set_common_headers_tables [simp]:
  "FUT_COL_MAPPING (set_common_headers key index st) = FUT_COL_MAPPING st"
  "CUR_COL_MAPPING (set_common_headers key index st) = CUR_COL_MAPPING st"
  by (simp_all add: set_common_headers_def)

lemma set_fut_use_cases:
  "(strip_g \<notin> fst ` set (FUT_COL_MAPPING st)
      \<and> set_fut_use strip_g index st = Inl (KeyError strip_g))
   \<or> (strip_g \<in> fst ` set (FUT_COL_MAPPING st)
       \<and> (\<exists>st'. set_fut_use strip_g index st = Inr st'
          \<and> fst ` set (FUT_COL_MAPPING st') = fst ` set (FUT_COL_MAPPING st)))"
proof (cases "map_of (FUT_COL_MAPPING st) strip_g")
  case None
  then have "strip_g \<notin> fst ` set (FUT_COL_MAPPING st)"
    by (simp add: map_of_None_iff)
  with None show ?thesis
    by (simp add: set_fut_use_def)
next
  case (Some cols)
  then have "strip_g \<in> fst ` set (FUT_COL_MAPPING st)"
    by (metis map_of_None_iff option.distinct(1))
  with Some show ?thesis
    by (auto simp: set_fut_use_def dom_update)
qed

lemma set_fut_learn_cases:
  "(strip_g \<notin> fst ` set (FUT_COL_MAPPING st)
      \<and> set_fut_learn strip_g index st = Inl (KeyError strip_g))
   \<or> (strip_g \<in> fst ` set (FUT_COL_MAPPING st)
       \<and> (\<exists>st'. set_fut_learn strip_g index st = Inr st'
          \<and> fst ` set (FUT_COL_MAPPING st') = fst ` set (FUT_COL_MAPPING st)))"
proof (cases "map_of (FUT_COL_MAPPING st) strip_g")
  case None
  then have "strip_g \<notin> fst ` set (FUT_COL_MAPPING st)"
    by (simp add: map_of_None_iff)
  with None show ?thesis
    by (simp add: set_fut_learn_def)
next
  case (Some cols)
  then have "strip_g \<in> fst ` set (FUT_COL_MAPPING st)"
    by (metis map_of_None_iff option.distinct(1))
  with Some show ?thesis
    by (auto simp: set_fut_learn_def dom_update)
qed

text \<open>One header cell that is no identity question: the two assignments in a row.\<close>

lemma fut_step_cases:
  fixes col index st
  defines "step \<equiv>
     (case (case use_match col of
                 None \<Rightarrow> Inr st
               | Some g \<Rightarrow> set_fut_use (strip g) index st) of
           Inl e \<Rightarrow> Inl e
         | Inr st1 \<Rightarrow>
             (case learn_match col of
                      None \<Rightarrow> Inr st1
                    | Some g \<Rightarrow> set_fut_learn (strip g) index st1))"
  shows "(\<exists>k. step = Inl (KeyError k))
       \<or> (\<exists>st2. step = Inr st2
             \<and> fst ` set (FUT_COL_MAPPING st2) = fst ` set (FUT_COL_MAPPING st)
             \<and> (\<forall>g. use_match col = Some g \<or> learn_match col = Some g
                    \<longrightarrow> strip g \<in> fst ` set (FUT_COL_MAPPING st)))"
proof (cases "use_match col")
  case None
  show ?thesis
  proof (cases "learn_match col")
    case None
    with \<open>use_match col = None\<close> show ?thesis by (simp add: step_def)
  next
    case (Some g)
    with \<open>use_match col = None\<close> set_fut_learn_cases[of "strip g" st index]
    show ?thesis by (auto simp: step_def)
  qed
next
  case (Some g)
  from set_fut_use_cases[of "strip g" st index] show ?thesis
  proof
    assume "strip g \<notin> fst ` set (FUT_COL_MAPPING st)
      \<and> set_fut_use (strip g) index st = Inl (KeyError (strip g))"
    with Some show ?thesis by (simp add: step_def)
  next
    assume "strip g \<in> fst ` set (FUT_COL_MAPPING st)
       \<and> (\<exists>st'. set_fut_use (strip g) index st = Inr st'
          \<and> fst ` set (FUT_COL_MAPPING st') = fst ` set (FUT_COL_MAPPING st))"
    then obtain st1 where st1: "set_fut_use (strip g) index st = Inr st1"
      "fst ` set (FUT_COL_MAPPING st1) = fst ` set (FUT_COL_MAPPING st)"
      and in_g: "strip g \<in> fst ` set (FUT_COL_MAPPING st)" by blast
    show ?thesis
    proof (cases "learn_match col")
      case None
      with Some st1 in_g show ?thesis by (simp add: step_def)
    next
      case (Some g')
      with \<open>use_match col = Some g\<close> st1 in_g set_fut_learn_cases[of "strip g'" st1 index]
      show ?thesis by (auto simp: step_def)
    qed
  qed
qed

lemma fut_headers_loop_KeyError:
  "fut_headers_loop index row st = Inl e \<Longrightarrow> \<exists>k. e = KeyError k"
proof (induction row arbitrary: index st)
  case Nil
  then show ?case by simp
next
  case (Cons col row)
  show ?case
  proof (cases "col \<in> set OTHER_COL")
    case True
    with Cons show ?thesis by simp
  next
    case False
    from fut_step_cases[where col = col and index = index and st = st] Cons False show ?thesis
      by (auto split: sum.splits)
  qed
qed

lemma fut_headers_loop_undeclared:
  assumes "col \<in> set row"
    and "use_match col = Some g \<or> learn_match col = Some g"
    and "strip g \<notin> fst ` set (FUT_COL_MAPPING st)"
  shows "\<exists>e. fut_headers_loop index row st = Inl e"
  using assms
proof (induction row arbitrary: index st)
  case Nil
  then show ?case by simp
next
  case (Cons x row)
  show ?case
  proof (cases "x \<in> set OTHER_COL")
    case True
    with Cons.prems(2) OTHER_COL_no_match[of x] have "col \<noteq> x" by auto
    with Cons.prems have "col \<in> set row" by simp
    from Cons.IH[OF this Cons.prems(2), of "set_common_headers x index st" "Suc index"]
      Cons.prems(3) True
    show ?thesis by simp
  next
    case False
    from fut_step_cases[where col = x and index = index and st = st] show ?thesis
    proof
      assume "\<exists>k. (case (case use_match x of
                 None \<Rightarrow> Inr st
               | Some g \<Rightarrow> set_fut_use (strip g) index st) of
           Inl e \<Rightarrow> Inl e
         | Inr st1 \<Rightarrow>
             (case learn_match x of
                      None \<Rightarrow> Inr st1
                    | Some g \<Rightarrow> set_fut_learn (strip g) index st1)) = Inl (KeyError k)"
      with False show ?thesis by (auto split: sum.splits)
    next
      assume "\<exists>st2. (case (case use_match x of
                 None \<Rightarrow> Inr st
               | Some g \<Rightarrow> set_fut_use (strip g) index st) of
           Inl e \<Rightarrow> Inl e
         | Inr st1 \<Rightarrow>
             (case learn_match x of
                      None \<Rightarrow> Inr st1
                    | Some g \<Rightarrow> set_fut_learn (strip g) index st1)) = Inr st2
             \<and> fst ` set (FUT_COL_MAPPING st2) = fst ` set (FUT_COL_MAPPING st)
             \<and> (\<forall>g. use_match x = Some g \<or> learn_match x = Some g
                    \<longrightarrow> strip g \<in> fst ` set (FUT_COL_MAPPING st))"
      then obtain st2 where st2: "(case (case use_match x of
                 None \<Rightarrow> Inr st
               | Some g \<Rightarrow> set_fut_use (strip g) index st) of
           Inl e \<Rightarrow> Inl e
         | Inr st1 \<Rightarrow>
             (case learn_match x of
                      None \<Rightarrow> Inr st1
                    | Some g \<Rightarrow> set_fut_learn (strip g) index st1)) = Inr st2"
        and keys: "fst ` set (FUT_COL_MAPPING st2) = fst ` set (FUT_COL_MAPPING st)"
        and ok: "\<forall>g. use_match x = Some g \<or> learn_match x = Some g
                    \<longrightarrow> strip g \<in> fst ` set (FUT_COL_MAPPING st)"
        by blast
      from ok Cons.prems(2,3) have "col \<noteq> x" by auto
      with Cons.prems have "col \<in> set row" by simp
      from Cons.IH[OF this Cons.prems(2), of st2 "Suc index"] Cons.prems(3) keys
      obtain e where "fut_headers_loop (Suc index) row st2 = Inl e" by auto
      with False st2 show ?thesis by (auto split: sum.splits)
    qed
  qed
qed

subsection \<open>Current-skill headers\<close>

lemma cur_subcategory_init_keys:
  "fst ` set (cur_subcategory_init subcategories d) = fst ` set d \<union> set subcategories"
proof (induction subcategories arbitrary: d)
  case Nil
  then show ?case by simp
next
  case (Cons s subcategories)
  show ?case
    unfolding cur_subcategory_init.simps Cons.IH by (simp add: dom_update)
qed

lemma declared_update:
  "declared (AList.update c d table) c' s =
     (if c' = c then s \<in> fst ` set d else declared table c' s)"
  by (simp add: declared_def update_conv')

lemma cur_init_declared:
  assumes "declared (CUR_COL_MAPPING (cur_init mapping st)) c s"
  shows "(\<exists>subs. (c, subs) \<in> set mapping \<and> s \<in> set subs)
         \<or> declared (CUR_COL_MAPPING st) c s"
  using assms
proof (induction mapping arbitrary: st)
  case Nil
  then show ?case by simp
next
  case (Cons p mapping)
  obtain category subcategories where p: "p = (category, subcategories)" by (cases p)
  let ?st = "st\<lparr>CUR_COL_MAPPING :=
              AList.update category (cur_subcategory_init subcategories [])
                (CUR_COL_MAPPING st)\<rparr>"
  from Cons.prems have "declared (CUR_COL_MAPPING (cur_init mapping ?st)) c s"
    by (simp add: p)
  from Cons.IH[OF this] show ?case
  proof
    assume "\<exists>subs. (c, subs) \<in> set mapping \<and> s \<in> set subs"
    then show ?thesis by auto
  next
    assume "declared (CUR_COL_MAPPING ?st) c s"
    then show ?thesis
      unfolding p by (auto simp: declared_update cur_subcategory_init_keys split: if_splits)
  qed
qed

lemma set_cur_col_cases:
  "(\<not> declared (CUR_COL_MAPPING st) c s
      \<and> (\<exists>k. set_cur_col c s assign st = Inl (KeyError k)))
   \<or> (declared (CUR_COL_MAPPING st) c s
       \<and> (\<exists>st'. set_cur_col c s assign st = Inr st'
             \<and> declared (CUR_COL_MAPPING st') = declared (CUR_COL_MAPPING st)))"
proof (cases "map_of (CUR_COL_MAPPING st) c")
  case None
  then show ?thesis
    by (simp add: set_cur_col_def declared_def)
next
  case (Some subs)
  show ?thesis
  proof (cases "map_of subs s")
    case None
    then have "s \<notin> fst ` set subs"
      by (simp add: map_of_None_iff)
    with Some None show ?thesis
      by (simp add: set_cur_col_def declared_def)
  next
    case (Some cols)
    then have in_s: "s \<in> fst ` set subs"
      by (metis map_of_None_iff option.distinct(1))
    have "declared (AList.update c (AList.update s (assign cols) subs) (CUR_COL_MAPPING st))
            = declared (CUR_COL_MAPPING st)"
    proof (intro ext)
      fix c' s'
      show "declared (AList.update c (AList.update s (assign cols) subs) (CUR_COL_MAPPING st))
              c' s' = declared (CUR_COL_MAPPING st) c' s'"
      proof (cases "c' = c")
        case True
        have "fst ` set (AList.update s (assign cols) subs) = fst ` set subs"
          using in_s by (auto simp: dom_update)
        with True \<open>map_of (CUR_COL_MAPPING st) c = Some subs\<close> show ?thesis
          by (simp add: declared_update) (simp add: declared_def)
      next
        case False
        then show ?thesis by (simp add: declared_update)
      qed
    qed
    with Some \<open>map_of (CUR_COL_MAPPING st) c = Some subs\<close> in_s show ?thesis
      by (simp add: set_cur_col_def declared_def)
  qed
qed

lemma cur_step_cases:
  fixes col index st
  defines "step \<equiv>
     (case (case self_match col of
                 None \<Rightarrow> Inr st
               | Some (c, s) \<Rightarrow>
                   set_cur_col (strip c) (clean_subcategory s) (SELF_update (\<lambda>_. Some index)) st) of
           Inl e \<Rightarrow> Inl e
         | Inr st1 \<Rightarrow>
             (case team_match col of
                      None \<Rightarrow> Inr st1
                    | Some (c, s) \<Rightarrow>
                        set_cur_col (strip c) (clean_subcategory s)
                          (TEAM_update (\<lambda>_. Some index)) st1))"
  shows "(\<exists>k. step = Inl (KeyError k))
       \<or> (\<exists>st2. step = Inr st2
             \<and> declared (CUR_COL_MAPPING st2) = declared (CUR_COL_MAPPING st)
             \<and> (\<forall>c s. self_match col = Some (c, s) \<or> team_match col = Some (c, s)
                    \<longrightarrow> declared (CUR_COL_MAPPING st) (strip c) (clean_subcategory s)))"
proof (cases "self_match col")
  case None
  show ?thesis
  proof (cases "team_match col")
    case None
    with \<open>self_match col = None\<close> show ?thesis by (simp add: step_def)
  next
    case (Some p)
    obtain c s where p: "p = (c, s)" by (cases p)
    from Some \<open>self_match col = None\<close>
      set_cur_col_cases[of st "strip c" "clean_subcategory s" "TEAM_update (\<lambda>_. Some index)"]
    show ?thesis unfolding p by (auto simp: step_def)
  qed
next
  case (Some p)
  obtain c s where p: "p = (c, s)" by (cases p)
  from set_cur_col_cases[of st "strip c" "clean_subcategory s" "SELF_update (\<lambda>_. Some index)"]
  show ?thesis
  proof
    assume "\<not> declared (CUR_COL_MAPPING st) (strip c) (clean_subcategory s)
      \<and> (\<exists>k. set_cur_col (strip c) (clean_subcategory s) (SELF_update (\<lambda>_. Some index)) st
                = Inl (KeyError k))"
    with Some show ?thesis unfolding p by (auto simp: step_def)
  next
    assume "declared (CUR_COL_MAPPING st) (strip c) (clean_subcategory s)
       \<and> (\<exists>st'. set_cur_col (strip c) (clean_subcategory s) (SELF_update (\<lambda>_. Some index)) st
                   = Inr st'
             \<and> declared (CUR_COL_MAPPING st') = declared (CUR_COL_MAPPING st))"
    then obtain st1 where
      st1: "set_cur_col (strip c) (clean_subcategory s) (SELF_update (\<lambda>_. Some index)) st
              = Inr st1"
        "declared (CUR_COL_MAPPING st1) = declared (CUR_COL_MAPPING st)"
      and in_g: "declared (CUR_COL_MAPPING st) (strip c) (clean_subcategory s)" by blast
    show ?thesis
    proof (cases "team_match col")
      case None
      with Some st1 in_g show ?thesis unfolding p by (simp add: step_def)
    next
      case (Some p')
      obtain c' s' where p': "p' = (c', s')" by (cases p')
      from Some \<open>self_match col = Some p\<close> st1 in_g
        set_cur_col_cases[of st1 "strip c'" "clean_subcategory s'"
          "TEAM_update (\<lambda>_. Some index)"]
      show ?thesis unfolding p p' by (auto simp: step_def)
    qed
  qed
qed

lemma cur_headers_loop_KeyError:
  "cur_headers_loop index row st = Inl e \<Longrightarrow> \<exists>k. e = KeyError k"
proof (induction row arbitrary: index st)
  case Nil
  then show ?case by simp
next
  case (Cons col row)
  show ?case
  proof (cases "col \<in> set OTHER_COL")
    case True
    with Cons show ?thesis by simp
  next
    case False
    from cur_step_cases[where col = col and index = index and st = st] Cons False
    show ?thesis
      by (auto split: sum.splits)
  qed
qed

lemma cur_headers_loop_undeclared:
  assumes "col \<in> set row"
    and "self_match col = Some (c, s) \<or> team_match col = Some (c, s)"
    and "\<not> declared (CUR_COL_MAPPING st) (strip c) (clean_subcategory s)"
  shows "\<exists>e. cur_headers_loop index row st = Inl e"
  using assms
proof (induction row arbitrary: index st)
  case Nil
  then show ?case by simp
next
  case (Cons x row)
  show ?case
  proof (cases "x \<in> set OTHER_COL")
    case True
    with Cons.prems(2) OTHER_COL_no_match[of x] have "col \<noteq> x" by auto
    with Cons.prems have "col \<in> set row" by simp
    from Cons.IH[OF this Cons.prems(2), of "set_common_headers x index st" "Suc index"]
      Cons.prems(3) True
    show ?thesis by simp
  next
    case False
    define step where "step =
     (case (case self_match x of
                 None \<Rightarrow> Inr st
               | Some (c, s) \<Rightarrow>
                   set_cur_col (strip c) (clean_subcategory s) (SELF_update (\<lambda>_. Some index)) st) of
           Inl e \<Rightarrow> Inl e
         | Inr st1 \<Rightarrow>
             (case team_match x of
                      None \<Rightarrow> Inr st1
                    | Some (c, s) \<Rightarrow>
                        set_cur_col (strip c) (clean_subcategory s)
                          (TEAM_update (\<lambda>_. Some index)) st1))"
    have loop: "cur_headers_loop index (x # row) st =
       (case step of Inl e \<Rightarrow> Inl e | Inr st2 \<Rightarrow> cur_headers_loop (Suc index) row st2)"
      using False unfolding step_def by (simp split: sum.splits)
    from cur_step_cases[where col = x and index = index and st = st]
    have "(\<exists>k. step = Inl (KeyError k))
       \<or> (\<exists>st2. step = Inr st2
             \<and> declared (CUR_COL_MAPPING st2) = declared (CUR_COL_MAPPING st)
             \<and> (\<forall>c s. self_match x = Some (c, s) \<or> team_match x = Some (c, s)
                    \<longrightarrow> declared (CUR_COL_MAPPING st) (strip c) (clean_subcategory s)))"
      unfolding step_def .
    then show ?thesis
    proof
      assume "\<exists>k. step = Inl (KeyError k)"
      then show ?thesis unfolding loop by auto
    next
      assume "\<exists>st2. step = Inr st2
             \<and> declared (CUR_COL_MAPPING st2) = declared (CUR_COL_MAPPING st)
             \<and> (\<forall>c s. self_match x = Some (c, s) \<or> team_match x = Some (c, s)
                    \<longrightarrow> declared (CUR_COL_MAPPING st) (strip c) (clean_subcategory s))"
      then obtain st2 where st2: "step = Inr st2"
        and keys: "declared (CUR_COL_MAPPING st2) = declared (CUR_COL_MAPPING st)"
        and ok: "\<forall>c s. self_match x = Some (c, s) \<or> team_match x = Some (c, s)
                    \<longrightarrow> declared (CUR_COL_MAPPING st) (strip c) (clean_subcategory s)"
        by blast
      from ok Cons.prems(2,3) have "col \<noteq> x" by auto
      with Cons.prems have "col \<in> set row" by simp
      from Cons.IH[OF this Cons.prems(2), of st2 "Suc index"] Cons.prems(3) keys
      obtain e where "cur_headers_loop (Suc index) row st2 = Inl e" by auto
      with st2 show ?thesis unfolding loop by simp
    qed
  qed
qed

text \<open>
  C1, as the claim states it, fails: a header that matches the use pattern with a category
  that the mapping does not declare makes \<open>set_fut_headers\<close> raise KeyError, and a
  header that matches the self-level pattern with a subcategory that the mapping does not
  declare makes \<open>set_cur_headers\<close> raise KeyError.
\<close>

theorem undeclared_header_not_silent:
  "use_match (example_header ! 6) = Some (str ''Cloud'')
   \<and> set_fut_headers example_header [] init_tables = Inl (KeyError (str ''Cloud''))
   \<and> self_match (example_header ! 4) = Some (str ''Cloud'', str ''AWS (examples: EC2, S3)'')
   \<and> set_cur_headers example_header [(str ''Cloud'', [str ''Azure''])] init_tables
       = Inl (KeyError (str ''AWS''))"
  by (simp add: set_cur_headers_def set_fut_headers_def example_header_def
      init_tables_def OTHER_COL_def set_common_headers_def set_cur_col_def
      set_fut_use_def set_fut_learn_def match_defs)

text \<open>
  C1, amended. Let the table that a header matcher fills be empty before the call, as at
  the start of a run. If a cell of the header row matches the use or the learn pattern
  and its stripped category is no key of the mapping, \<open>set_fut_headers\<close> raises KeyError;
  if a cell matches the self-level or the team-need pattern and its cleaned subcategory
  stands under its stripped category nowhere in the mapping, \<open>set_cur_headers\<close> raises
  KeyError. Nothing is skipped silently.
\<close>

theorem undeclared_header_raises_KeyError:
  assumes "col \<in> set row"
  shows "(FUT_COL_MAPPING st = []
            \<and> (use_match col = Some g \<or> learn_match col = Some g)
            \<and> strip g \<notin> fst ` set mapping
          \<longrightarrow> (\<exists>k. set_fut_headers row mapping st = Inl (KeyError k)))
       \<and> (CUR_COL_MAPPING st = []
            \<and> (self_match col = Some (g, s) \<or> team_match col = Some (g, s))
            \<and> (\<forall>subs. (strip g, subs) \<in> set mapping \<longrightarrow> clean_subcategory s \<notin> set subs)
          \<longrightarrow> (\<exists>k. set_cur_headers row mapping st = Inl (KeyError k)))"
proof (intro conjI impI)
  assume a: "FUT_COL_MAPPING st = []
            \<and> (use_match col = Some g \<or> learn_match col = Some g)
            \<and> strip g \<notin> fst ` set mapping"
  then have "strip g \<notin> fst ` set (FUT_COL_MAPPING (fut_init mapping st))"
    by (simp add: fut_init_keys)
  with assms a obtain e where "fut_headers_loop 0 row (fut_init mapping st) = Inl e"
    using fut_headers_loop_undeclared by blast
  then show "\<exists>k. set_fut_headers row mapping st = Inl (KeyError k)"
    using fut_headers_loop_KeyError unfolding set_fut_headers_def by blast
next
  assume a: "CUR_COL_MAPPING st = []
            \<and> (self_match col = Some (g, s) \<or> team_match col = Some (g, s))
            \<and> (\<forall>subs. (strip g, subs) \<in> set mapping \<longrightarrow> clean_subcategory s \<notin> set subs)"
  have "\<not> declared (CUR_COL_MAPPING (cur_init mapping st)) (strip g) (clean_subcategory s)"
  proof
    assume "declared (CUR_COL_MAPPING (cur_init mapping st)) (strip g) (clean_subcategory s)"
    from cur_init_declared[OF this] a show False
      by (auto simp: declared_def)
  qed
  with assms a obtain e where "cur_headers_loop 0 row (cur_init mapping st) = Inl e"
    using cur_headers_loop_undeclared by blast
  then show "\<exists>k. set_cur_headers row mapping st = Inl (KeyError k)"
    using cur_headers_loop_KeyError unfolding set_cur_headers_def by blast
qed

theorem undeclared_header_raises_KeyError_witness:
  "(\<exists>k. set_fut_headers example_header [] init_tables = Inl (KeyError k))
   \<and> (\<exists>k. set_cur_headers example_header [(str ''Cloud'', [str ''Azure''])] init_tables
            = Inl (KeyError k))"
proof
  have col: "example_header ! 6 \<in> set example_header"
    by (simp add: example_header_def)
  have m: "use_match (example_header ! 6) = Some (str ''Cloud'')"
    by (simp add: example_header_def match_defs)
  have k: "strip (str ''Cloud'') \<notin> fst ` set ([] :: mapping)"
    by simp
  from undeclared_header_raises_KeyError[OF col, of init_tables "str ''Cloud''" "[]"] m k
  show "\<exists>k. set_fut_headers example_header [] init_tables = Inl (KeyError k)"
    by (simp add: init_tables_def)
next
  have col: "example_header ! 4 \<in> set example_header"
    by (simp add: example_header_def)
  have m: "self_match (example_header ! 4) = Some (str ''Cloud'', str ''AWS (examples: EC2, S3)'')"
    by (simp add: example_header_def match_defs)
  have k: "\<forall>subs. (strip (str ''Cloud''), subs) \<in> set [(str ''Cloud'', [str ''Azure''])]
             \<longrightarrow> clean_subcategory (str ''AWS (examples: EC2, S3)'') \<notin> set subs"
    by (simp add: strip_def isspace_def clean_subcategory_def)
  from undeclared_header_raises_KeyError[OF col, of init_tables "str ''Cloud''"
      "[(str ''Cloud'', [str ''Azure''])]" "str ''AWS (examples: EC2, S3)''"] m k
  show "\<exists>k. set_cur_headers example_header [(str ''Cloud'', [str ''Azure''])] init_tables
            = Inl (KeyError k)"
    by (simp add: init_tables_def)
qed

section \<open>The tables that the header matchers build are dictionaries\<close>

text \<open>The header matchers keep the keys of the tables distinct, so the tables of a run
  that starts from the empty tables satisfy the distinctness that the theorems on the
  reshapers assume.\<close>

lemma set_update_subset: "set (AList.update k v al) \<subseteq> insert (k, v) (set al)"
  by (induction al) auto

lemma fut_init_FUT_COLS_distinct:
  "distinct (map fst (FUT_COLS st)) \<Longrightarrow> distinct (map fst (FUT_COLS (fut_init mapping st)))"
proof (induction mapping arbitrary: st)
  case Nil
  then show ?case by simp
next
  case (Cons p mapping)
  obtain category subcategories where p: "p = (category, subcategories)" by (cases p)
  show ?case
    unfolding p fut_init.simps using Cons.prems by (intro Cons.IH) (simp add: distinct_update)
qed

lemma fut_headers_loop_FUT_COLS:
  "fut_headers_loop index row st = Inr st' \<Longrightarrow> FUT_COLS st' = FUT_COLS st"
proof (induction row arbitrary: index st)
  case Nil
  then show ?case by simp
next
  case (Cons col row)
  show ?case
  proof (cases "col \<in> set OTHER_COL")
    case True
    with Cons.prems Cons.IH[of "Suc index" "set_common_headers col index st"]
    show ?thesis by (simp add: set_common_headers_def split: if_splits)
  next
    case False
    with Cons.prems obtain st1 st2 where
      1: "(case use_match col of None \<Rightarrow> Inr st
             | Some g \<Rightarrow> set_fut_use (strip g) index st) = Inr st1"
      and 2: "(case learn_match col of None \<Rightarrow> Inr st1
             | Some g \<Rightarrow> set_fut_learn (strip g) index st1) = Inr st2"
      and 3: "fut_headers_loop (Suc index) row st2 = Inr st'"
      by (auto split: sum.splits)
    from 1 have "FUT_COLS st1 = FUT_COLS st"
      by (auto simp: set_fut_use_def split: option.splits)
    moreover from 2 have "FUT_COLS st2 = FUT_COLS st1"
      by (auto simp: set_fut_learn_def split: option.splits)
    ultimately show ?thesis using Cons.IH[OF 3] by simp
  qed
qed

lemma set_fut_headers_FUT_COLS_distinct:
  assumes "distinct (map fst (FUT_COLS st))"
    and "set_fut_headers row mapping st = Inr st'"
  shows "distinct (map fst (FUT_COLS st'))"
  using assms fut_headers_loop_FUT_COLS[of 0 row "fut_init mapping st" st']
    fut_init_FUT_COLS_distinct[of st mapping]
  by (simp add: set_fut_headers_def)

lemma cur_subcategory_init_distinct:
  "distinct (map fst d) \<Longrightarrow> distinct (map fst (cur_subcategory_init subcategories d))"
  by (induction subcategories arbitrary: d) (simp_all add: distinct_update)

lemma cur_init_distinct:
  assumes "distinct (map fst (CUR_COL_MAPPING st))"
    and "\<forall>(category, subs) \<in> set (CUR_COL_MAPPING st). distinct (map fst subs)"
  shows "distinct (map fst (CUR_COL_MAPPING (cur_init mapping st)))
       \<and> (\<forall>(category, subs) \<in> set (CUR_COL_MAPPING (cur_init mapping st)).
             distinct (map fst subs))"
  using assms
proof (induction mapping arbitrary: st)
  case Nil
  then show ?case by simp
next
  case (Cons p mapping)
  obtain category subcategories where p: "p = (category, subcategories)" by (cases p)
  let ?d = "cur_subcategory_init subcategories []"
  have d: "distinct (map fst ?d)"
    by (rule cur_subcategory_init_distinct) simp
  have "\<forall>(c, subs) \<in> set (AList.update category ?d (CUR_COL_MAPPING st)).
          distinct (map fst subs)"
    using set_update_subset[of category ?d "CUR_COL_MAPPING st"] Cons.prems(2) d by auto
  with Cons.prems(1) show ?case
    unfolding p cur_init.simps by (intro Cons.IH) (simp_all add: distinct_update)
qed

lemma set_cur_col_distinct:
  assumes "distinct (map fst (CUR_COL_MAPPING st))"
    and "\<forall>(category, subs) \<in> set (CUR_COL_MAPPING st). distinct (map fst subs)"
    and "set_cur_col c s assign st = Inr st'"
  shows "COMMON_COL_MAPPING st' = COMMON_COL_MAPPING st
       \<and> distinct (map fst (CUR_COL_MAPPING st'))
       \<and> (\<forall>(category, subs) \<in> set (CUR_COL_MAPPING st'). distinct (map fst subs))"
proof -
  from assms(3) obtain subs cols where
    subs: "map_of (CUR_COL_MAPPING st) c = Some subs"
    and st': "st' = st\<lparr>CUR_COL_MAPPING :=
                      AList.update c (AList.update s (assign cols) subs)
                        (CUR_COL_MAPPING st)\<rparr>"
    by (auto simp: set_cur_col_def split: option.splits)
  from subs have "(c, subs) \<in> set (CUR_COL_MAPPING st)"
    by (rule map_of_SomeD)
  with assms(2) have "distinct (map fst (AList.update s (assign cols) subs))"
    by (auto simp: distinct_update)
  then have "\<forall>(category, subs') \<in> set (AList.update c (AList.update s (assign cols) subs)
                 (CUR_COL_MAPPING st)). distinct (map fst subs')"
    using set_update_subset[of c "AList.update s (assign cols) subs" "CUR_COL_MAPPING st"]
      assms(2) by auto
  with assms(1) show ?thesis
    unfolding st' by (simp add: distinct_update)
qed

lemma cur_headers_loop_distinct:
  assumes "distinct (map fst (CUR_COL_MAPPING st))"
    and "\<forall>(category, subs) \<in> set (CUR_COL_MAPPING st). distinct (map fst subs)"
    and "cur_headers_loop index row st = Inr st'"
  shows "distinct (map fst (CUR_COL_MAPPING st'))
       \<and> (\<forall>(category, subs) \<in> set (CUR_COL_MAPPING st'). distinct (map fst subs))"
  using assms
proof (induction row arbitrary: index st)
  case Nil
  then show ?case by simp
next
  case (Cons col row)
  show ?case
  proof (cases "col \<in> set OTHER_COL")
    case True
    with Cons.prems(3)
    have "cur_headers_loop (Suc index) row (set_common_headers col index st) = Inr st'"
      by simp
    from Cons.IH[OF _ _ this] Cons.prems(1,2) show ?thesis by simp
  next
    case False
    with Cons.prems(3) obtain st1 st2 where
      1: "(case self_match col of None \<Rightarrow> Inr st
             | Some (c, s) \<Rightarrow> set_cur_col (strip c) (clean_subcategory s)
                   (SELF_update (\<lambda>_. Some index)) st) = Inr st1"
      and 2: "(case team_match col of None \<Rightarrow> Inr st1
             | Some (c, s) \<Rightarrow> set_cur_col (strip c) (clean_subcategory s)
                   (TEAM_update (\<lambda>_. Some index)) st1) = Inr st2"
      and 3: "cur_headers_loop (Suc index) row st2 = Inr st'"
      by (auto split: sum.splits)
    have w1: "distinct (map fst (CUR_COL_MAPPING st1))
       \<and> (\<forall>(category, subs) \<in> set (CUR_COL_MAPPING st1). distinct (map fst subs))"
    proof (cases "self_match col")
      case None
      with 1 have "st1 = st" by simp
      with Cons.prems(1,2) show ?thesis by simp
    next
      case (Some p)
      obtain c s where p: "p = (c, s)" by (cases p)
      from 1 Some have "set_cur_col (strip c) (clean_subcategory s)
                   (SELF_update (\<lambda>_. Some index)) st = Inr st1"
        unfolding p by simp
      from set_cur_col_distinct[OF Cons.prems(1,2) this] show ?thesis by blast
    qed
    have w2: "distinct (map fst (CUR_COL_MAPPING st2))
       \<and> (\<forall>(category, subs) \<in> set (CUR_COL_MAPPING st2). distinct (map fst subs))"
    proof (cases "team_match col")
      case None
      with 2 have "st2 = st1" by simp
      with w1 show ?thesis by simp
    next
      case (Some p)
      obtain c s where p: "p = (c, s)" by (cases p)
      from 2 Some have "set_cur_col (strip c) (clean_subcategory s)
                   (TEAM_update (\<lambda>_. Some index)) st1 = Inr st2"
        unfolding p by simp
      from set_cur_col_distinct[OF _ _ this] w1 show ?thesis by blast
    qed
    from Cons.IH[OF _ _ 3] w2 show ?thesis by blast
  qed
qed

lemma set_cur_headers_distinct:
  assumes "distinct (map fst (CUR_COL_MAPPING st))"
    and "\<forall>(category, subs) \<in> set (CUR_COL_MAPPING st). distinct (map fst subs)"
    and "set_cur_headers row mapping st = Inr st'"
  shows "distinct (map fst (CUR_COL_MAPPING st'))
       \<and> (\<forall>(category, subs) \<in> set (CUR_COL_MAPPING st'). distinct (map fst subs))"
proof -
  from cur_init_distinct[OF assms(1,2), of mapping]
  have "distinct (map fst (CUR_COL_MAPPING (cur_init mapping st)))"
    "\<forall>(category, subs) \<in> set (CUR_COL_MAPPING (cur_init mapping st)). distinct (map fst subs)"
    by blast+
  from cur_headers_loop_distinct[OF this] assms(3) show ?thesis
    by (simp add: set_cur_headers_def)
qed

section \<open>The pipeline driver\<close>

text \<open>
  C9. \<open>process\<close> does not return the three accumulated lists: whatever the processes, the
  rows, the mapping and the tables are, the call \<open>len()\<close> that stands before its loop
  raises a TypeError, so no row is ever reshaped.
\<close>

theorem process_raises_TypeError:
  "process processes in_rows mapping terminal_width st madlib_cols = Inl TypeError"
  by (simp add: process_def py_len_def)

section \<open>Output file names\<close>

declare version_loop.simps [simp del]

text \<open>
  C3. With \<open>current_skills_Platform.csv\<close> and \<open>current_skills_Platform_1.csv\<close> on disk,
  \<open>create_output\<close> writes \<open>current_skills_Platform_1_2.csv\<close>: each new suffix is put
  behind the candidate name before it, not behind the original base name.
\<close>

theorem create_output_third_attempt:
  "create_output
     (\<lambda>f. f \<in> set [str ''current_skills_Platform.csv'', str ''current_skills_Platform_1.csv''])
     [()] (str ''current_skills_Platform.csv'')
   = Inr (Some (str ''current_skills_Platform_1_2.csv''))"
  by (simp add: create_output_def version_loop.simps)

section \<open>The common columns\<close>

text \<open>
  C2. A header row with \<open>Name\<close> at positions 0 and 2: position 0 is not recorded, and the
  later duplicate at position 2 is.
\<close>

theorem set_common_headers_skips_position_0:
  "set_cur_headers [str ''Name'', str ''Classification Level'', str ''Name''] [] init_tables
     = Inr (init_tables\<lparr>COMMON_COL_MAPPING :=
              [(str ''Classification Level'', 1), (str ''Name'', 2)]\<rparr>)"
  by (simp add: set_cur_headers_def set_common_headers_def OTHER_COL_def init_tables_def)

end
